theory Spec2Isabelle
  imports Complex_Main "HOL-Library.Sublist" "HOL-Library.Log_Nat"
begin

section \<open>Data model of \<open>app.py\<close>\<close>

text \<open>
  Python strings are modelled as \<^typ>\<open>string\<close> (lists of 8-bit characters), Python's
  unbounded integers as \<^typ>\<open>int\<close>.  A dictionary whose order matters (the insertion
  order of \<open>dict.items()\<close>) is an association list.
\<close>

datatype error =
    KeyError string
  | ValueError string
  | ServiceError string

text \<open>The dictionary that the JSON parser returns, at its declared shape \<open>NeedsAnalysis\<close>.\<close>

record needs =
  budget :: int
  use_case :: string
  has_confirmed :: bool

text \<open>One entry of \<open>PC_BUILDS\<close>: the keys \<open>name\<close> and \<open>parts\<close>.\<close>

record build =
  build_name :: string
  parts :: "(string \<times> string) list"

subsection \<open>The compiled-in catalog\<close>

text \<open>The four entries of \<open>PC_BUILDS\<close>, each under the name of its key, and the dictionary.\<close>

definition budget_office :: build where
  "budget_office =
    \<lparr>build_name = ''Budget Office/Web Browse Build'',
     parts =
      [(''CPU'', ''AMD Ryzen 5 5600G''),
       (''Motherboard'', ''ASRock B450M PRO4''),
       (''RAM'', ''Corsair Vengeance LPX 16GB DDR4 3200MHz''),
       (''Storage'', ''Crucial P3 1TB NVMe SSD''),
       (''PSU'', ''Thermaltake Smart 500W 80+ White''),
       (''Case'', ''Cooler Master MasterBox Q300L'')]\<rparr>"

definition mid_range_gaming :: build where
  "mid_range_gaming =
    \<lparr>build_name = ''Mid-Range Gaming Build'',
     parts =
      [(''CPU'', ''AMD Ryzen 5 7600X''),
       (''GPU'', ''NVIDIA GeForce RTX 4060''),
       (''Motherboard'', ''Gigabyte B650 Gaming X AX''),
       (''RAM'', ''G.Skill Flare X5 32GB DDR5 6000MHz''),
       (''Storage'', ''Samsung 980 Pro 1TB NVMe SSD''),
       (''CPU Cooler'', ''Thermalright Phantom Spirit 120 SE''),
       (''PSU'', ''Corsair RM750e 750W 80+ Gold''),
       (''Case'', ''Lian Li Lancool 216'')]\<rparr>"

definition high_end_gaming :: build where
  "high_end_gaming =
    \<lparr>build_name = ''High-End Gaming/Streaming Build'',
     parts =
      [(''CPU'', ''AMD Ryzen 7 7800X3D''),
       (''GPU'', ''NVIDIA GeForce RTX 4070 Super''),
       (''Motherboard'', ''MSI MAG B650 Tomahawk WiFi''),
       (''RAM'', ''G.Skill Trident Z5 Neo 32GB DDR5 6000MHz CL30''),
       (''Storage'', ''Western Digital Black SN850X 2TB NVMe SSD''),
       (''CPU Cooler'', ''Thermalright Phantom Spirit 120 SE''),
       (''PSU'', ''SeaSonic FOCUS Plus Gold 850W''),
       (''Case'', ''Fractal Design Pop Air'')]\<rparr>"

definition professional_workstation :: build where
  "professional_workstation =
    \<lparr>build_name = ''Professional Video Editing Workstation'',
     parts =
      [(''CPU'', ''Intel Core i7-14700K''),
       (''GPU'', ''NVIDIA GeForce RTX 4080 Super''),
       (''Motherboard'', ''MSI PRO Z790-A WIFI''),
       (''RAM'', ''Corsair Vengeance 64GB DDR5 5600MHz''),
       (''Storage'', ''Samsung 990 Pro 2TB NVMe SSD''),
       (''CPU Cooler'', ''ARCTIC Liquid Freezer II 360''),
       (''PSU'', ''Corsair RM1000e 1000W 80+ Gold''),
       (''Case'', ''be quiet! Pure Base 500DX'')]\<rparr>"

definition PC_BUILDS :: "(string \<times> build) list" where
  "PC_BUILDS =
    [(''budget_office'', budget_office),
     (''mid_range_gaming'', mid_range_gaming),
     (''high_end_gaming'', high_end_gaming),
     (''professional_workstation'', professional_workstation)]"

text \<open>Subscripting a dictionary, \<open>d[k]\<close>: a missing key raises \<open>KeyError\<close>.\<close>

definition subscript :: "(string \<times> 'v) list \<Rightarrow> string \<Rightarrow> error + 'v" where
  "subscript d k = (case map_of d k of None \<Rightarrow> Inl (KeyError k) | Some v \<Rightarrow> Inr v)"

text \<open>\<open>dict.get(k, default)\<close>.\<close>

definition get_default :: "(string \<times> 'v) list \<Rightarrow> string \<Rightarrow> 'v \<Rightarrow> 'v" where
  "get_default d k dflt = (case map_of d k of None \<Rightarrow> dflt | Some v \<Rightarrow> v)"

text \<open>Python's \<open>sub in s\<close> on strings: \<open>sub\<close> occurs in \<open>s\<close> as a contiguous run.\<close>

fun contains :: "string \<Rightarrow> string \<Rightarrow> bool" where
  "contains sub [] = (sub = [])"
| "contains sub (c # cs) = (prefix sub (c # cs) \<or> contains sub cs)"

section \<open>Build Selector\<close>

definition select_build_tier :: "int \<Rightarrow> string \<Rightarrow> error + build" where
  "select_build_tier b uc =
    (if contains ''gaming'' uc then
       (if b < 1600 then subscript PC_BUILDS ''mid_range_gaming''
        else subscript PC_BUILDS ''high_end_gaming'')
     else if contains ''editing'' uc then subscript PC_BUILDS ''professional_workstation''
     else if contains ''office'' uc then subscript PC_BUILDS ''budget_office''
     else if b \<le> 700 then subscript PC_BUILDS ''budget_office''
     else if b \<le> 1600 then subscript PC_BUILDS ''mid_range_gaming''
     else subscript PC_BUILDS ''high_end_gaming'')"

section \<open>Python built-ins used by the Report Assembler\<close>

subsection \<open>\<open>str(int)\<close>\<close>

text \<open>The decimal digits of an integer that is not negative, and \<open>str\<close> of any integer.\<close>

definition digit_char :: "int \<Rightarrow> char" where
  "digit_char d = ''0123456789'' ! nat d"

function str_digits :: "int \<Rightarrow> string" where
  "str_digits i =
    (if i < 10 then [digit_char i] else str_digits (i div 10) @ [digit_char (i mod 10)])"
  by pat_completeness auto

termination
  by (relation "measure nat") auto

declare str_digits.simps [simp del]

definition str_int :: "int \<Rightarrow> string" where
  "str_int i = (if i < 0 then ''-'' @ str_digits (- i) else str_digits i)"

subsection \<open>Double-precision floats\<close>

text \<open>
  The only floats of the program are parsed from strings of digits and points and then added,
  so they are never negative and never NaN.  A float is its exact rational value, or
  infinity.  Every operation rounds the exact result to the nearest double, ties to even
  (53 significant bits, least exponent \<open>-1074\<close>), and gives infinity from \<open>2^1024\<close> on.
\<close>

datatype pyfloat = Finite rat | Infinity

definition round_half_even :: "rat \<Rightarrow> int" where
  "round_half_even q =
    (let f = \<lfloor>q\<rfloor>; r = q - of_int f
     in if r < 1 / 2 then f else if 1 / 2 < r then f + 1 else if even f then f else f + 1)"

text \<open>The binary exponent \<open>\<lfloor>log\<^sub>2 q\<rfloor>\<close> of a positive rational.\<close>

definition ilog2 :: "rat \<Rightarrow> int" where
  "ilog2 q =
    (let (n, d) = quotient_of q; k = bitlen n - bitlen d
     in if 2 powi k \<le> q then k else k - 1)"

definition round_double :: "rat \<Rightarrow> pyfloat" where
  "round_double q =
    (if q = 0 then Finite 0
     else let e = max (ilog2 q - 52) (- 1074);
              v = of_int (round_half_even (q / 2 powi e)) * 2 powi e
          in if 2 powi 1024 \<le> v then Infinity else Finite v)"

definition float_add :: "pyfloat \<Rightarrow> pyfloat \<Rightarrow> pyfloat" where
  "float_add x y =
    (case (x, y) of (Finite a, Finite b) \<Rightarrow> round_double (a + b) | _ \<Rightarrow> Infinity)"

definition is_digit :: "char \<Rightarrow> bool" where
  "is_digit c = (c \<in> set ''0123456789'')"

definition digit_val :: "char \<Rightarrow> nat" where
  "digit_val c = of_char c - 48"

definition digits_val :: "string \<Rightarrow> int" where
  "digits_val ds = foldl (\<lambda>acc c. 10 * acc + int (digit_val c)) 0 ds"

text \<open>
  \<open>float(s)\<close> on a string of digits and points, the only strings that reach it here: the
  string is a decimal literal when it has at least one digit and at most one point, and
  anything else raises \<open>ValueError\<close>.  (Signs, exponents, blanks and the other spellings
  that Python accepts never reach this call and are rejected by the model.)
\<close>

definition py_float :: "string \<Rightarrow> error + pyfloat" where
  "py_float s =
    (if list_all (\<lambda>c. is_digit c \<or> c = CHR ''.'') s
        \<and> list_ex is_digit s \<and> length (filter (\<lambda>c. c = CHR ''.'') s) \<le> 1
     then
       (let ip = takeWhile is_digit s; fp = drop 1 (dropWhile is_digit s)
        in Inr (round_double
                 (of_int (digits_val ip) + of_int (digits_val fp) / 10 ^ length fp)))
     else Inl (ValueError s))"

text \<open>
  The format \<open>:.2f\<close> of a float that is not negative: the exact value rounded to
  hundredths, ties to even, written with two decimals; infinity is written \<open>inf\<close>.
\<close>

definition format_2f :: "pyfloat \<Rightarrow> string" where
  "format_2f x =
    (case x of
       Infinity \<Rightarrow> ''inf''
     | Finite v \<Rightarrow>
        (let n = round_half_even (v * 100)
         in str_digits (n div 100) @ ''.''
            @ [digit_char (n mod 100 div 10), digit_char (n mod 10)]))"

text \<open>
  \<open>re.sub(r'[^\d.]', '', s)\<close>: every character that is neither a digit nor a point goes.
  On the 8-bit characters of the model \<open>\d\<close> is the ten ASCII digits.
\<close>

definition strip_non_numeric :: "string \<Rightarrow> string" where
  "strip_non_numeric s = filter (\<lambda>c. is_digit c \<or> c = CHR ''.'') s"

section \<open>Report Assembler\<close>

text \<open>
  The dictionary that a price lookup returns (\<open>name\<close>, \<open>price\<close>, \<open>link\<close>, \<open>image\<close>), and
  the same dictionary once the orchestrator has stored the category under \<open>type\<close>.
\<close>

record search_result =
  name :: string
  price :: string
  link :: string
  image_field :: string

record part = search_result +
  type :: string

definition table_row :: "part \<Rightarrow> string" where
  "table_row p =
     ''| **'' @ type p @ ''** | ['' @ name p @ '']('' @ link p @ '') ''
     @ ''| '' @ price p @ '' ''
     @ ''| !['' @ name p @ '']('' @ image_field p @ '') |\<newline>''"

text \<open>
  The loop over \<open>part_details\<close>, with the two variables that it updates: \<open>total_price\<close> and
  \<open>markdown_table\<close>.  A price that \<open>float\<close> rejects ends the loop with its exception.
\<close>

fun format_loop :: "part list \<Rightarrow> pyfloat \<Rightarrow> string \<Rightarrow> error + (pyfloat \<times> string)" where
  "format_loop [] total_price markdown_table = Inr (total_price, markdown_table)"
| "format_loop (p # ps) total_price markdown_table =
    (let price_str = strip_non_numeric (price p)
     in if price_str \<noteq> [] then
          (case py_float price_str of
             Inl e \<Rightarrow> Inl e
           | Inr x \<Rightarrow> format_loop ps (float_add total_price x) (markdown_table @ table_row p))
        else format_loop ps total_price (markdown_table @ table_row p))"

text \<open>The fixed pieces of the report: what precedes the rows, and what follows them.\<close>

definition table_header :: "build \<Rightarrow> string" where
  "table_header b =
     ''### Your Recommended '' @ build_name b @ ''\<newline>\<newline>''
     @ ''| Component | Part | Price | Image |\<newline>''
     @ ''|---|---|---|---|\<newline>''"

definition total_line :: "pyfloat \<Rightarrow> string" where
  "total_line total_price = ''\<newline>**Estimated Total: $'' @ format_2f total_price @ ''**''"

definition disclaimer :: string where
  "disclaimer = ''\<newline>\<newline>*Prices are estimates from live search results and may vary. Links will open in a new tab.*''"

definition format_results_as_markdown :: "build \<Rightarrow> part list \<Rightarrow> error + string" where
  "format_results_as_markdown b part_details =
    (case format_loop part_details (Finite 0) (table_header b) of
       Inl e \<Rightarrow> Inl e
     | Inr (total_price, markdown_table) \<Rightarrow>
         Inr (markdown_table @ total_line total_price @ disclaimer))"

section \<open>Collaborators\<close>

text \<open>
  The module builds three LangChain objects when it is loaded (\<open>llama_template\<close>, \<open>LLM\<close>,
  \<open>json_parser\<close>) and reaches the search service through \<open>GoogleSearch\<close>.  They are the
  fields of an environment.  The language model and the parser are functions of their
  input that return a value or raise; \<open>format_instructions\<close> is what
  \<open>json_parser.get_format_instructions()\<close> returns; \<open>shopping_results\<close> gives, for a query,
  the value stored under \<open>"shopping_results"\<close> in the dictionary that
  \<open>GoogleSearch(params).get_dict()\<close> returns, and \<open>None\<close> when the key is absent.  A product
  of the search service is a dictionary from strings to strings.

  The template of the module is the constant \<open>llama_template\<close> below.  What is proved for
  every environment holds for the module, whose environment has \<open>prompt = llama_template\<close>;
  what depends on the template fixes it with \<open>env\<lparr>prompt := llama_template\<rparr>\<close>.

  The module is taken as loaded (the API keys are set), the search service as answering
  every request, and what the program prints is left out.
\<close>

record prompt_template =
  template :: string
  input_variables :: "string list"

record env =
  prompt :: prompt_template
  LLM :: "string \<Rightarrow> error + string"
  json_parser :: "string \<Rightarrow> error + needs"
  format_instructions :: string
  shopping_results :: "string \<Rightarrow> (string \<times> string) list list option"

text \<open>
  The calls to the collaborators, in the order in which they are made: the intent
  extraction entered with a transcript, the language model reached with a prompt, the
  search service reached with a query.
\<close>

datatype call = Extract_call string | LLM_call string | Search_call string

subsection \<open>The prompt template\<close>

definition llama_template :: prompt_template where
  "llama_template =
    \<lparr>template = ''System: {system_prompt}\<newline>{format_prompt}\<newline>Human: Here is the chat history:\<newline>{chat_history}\<newline>AI:'',
     input_variables = [''system_prompt'', ''format_prompt'', ''chat_history'']\<rparr>"

text \<open>
  Filling the replacement fields \<open>{name}\<close> of a template from a dictionary, as
  \<open>str.format\<close> does for plain field names (brace escapes are not modelled:
  \<open>llama_template\<close> has none).
\<close>

function format_template :: "string \<Rightarrow> (string \<times> string) list \<Rightarrow> error + string" where
  "format_template [] kwargs = Inr []"
| "format_template (c # cs) kwargs =
    (if c = CHR ''{'' then
       (if CHR ''}'' \<in> set cs then
          (case map_of kwargs (takeWhile (\<lambda>x. x \<noteq> CHR ''}'') cs) of
             None \<Rightarrow> Inl (KeyError (takeWhile (\<lambda>x. x \<noteq> CHR ''}'') cs))
           | Some v \<Rightarrow>
              (case format_template (drop 1 (dropWhile (\<lambda>x. x \<noteq> CHR ''}'') cs)) kwargs of
                 Inl e \<Rightarrow> Inl e
               | Inr r \<Rightarrow> Inr (v @ r)))
        else Inl (ValueError ''expected } before end of string''))
     else if c = CHR ''}'' then Inl (ValueError ''single } encountered in format string'')
     else (case format_template cs kwargs of Inl e \<Rightarrow> Inl e | Inr r \<Rightarrow> Inr (c # r)))"
  by pat_completeness auto

termination
proof (relation "measure (\<lambda>(s, _). length s)")
  show "wf (measure (\<lambda>(s, _ :: (string \<times> string) list). length s))" by simp
next
  fix c :: char and cs :: string and kwargs :: "(string \<times> string) list"
  have "length (dropWhile (\<lambda>x. x \<noteq> CHR ''}'') cs) \<le> length cs"
    by (rule length_dropWhile_le)
  then show "((drop 1 (dropWhile (\<lambda>x. x \<noteq> CHR ''}'') cs), kwargs), c # cs, kwargs)
               \<in> measure (\<lambda>(s, _). length s)"
    by simp
next
  fix c :: char and cs :: string and kwargs :: "(string \<times> string) list"
  show "((cs, kwargs), c # cs, kwargs) \<in> measure (\<lambda>(s, _). length s)" by simp
qed

text \<open>
  \<open>PromptTemplate.invoke\<close>: the input dictionary must hold every declared input variable,
  else \<open>KeyError\<close>; then the template is filled in.
\<close>

definition prompt_invoke :: "prompt_template \<Rightarrow> (string \<times> string) list \<Rightarrow> error + string" where
  "prompt_invoke t inp =
    (case filter (\<lambda>v. map_of inp v = None) (input_variables t) of
       [] \<Rightarrow> format_template (template t) inp
     | v # _ \<Rightarrow> Inl (KeyError v))"

text \<open>
  \<open>(llama_template | LLM | json_parser).invoke(inp)\<close>: the three steps in turn, the first
  exception ending the chain.  The language model is called only when the prompt was built.
\<close>

definition chain_invoke :: "env \<Rightarrow> (string \<times> string) list \<Rightarrow> (error + needs) \<times> call list" where
  "chain_invoke env inp =
    (case prompt_invoke (prompt env) inp of
       Inl e \<Rightarrow> (Inl e, [])
     | Inr p \<Rightarrow>
        (case LLM env p of
           Inl e \<Rightarrow> (Inl e, [LLM_call p])
         | Inr text \<Rightarrow> (json_parser env text, [LLM_call p])))"

section \<open>Intent extraction\<close>

definition system_prompt :: string where
  "system_prompt =
     ''You are an expert at analyzing chatbot conversations. Your task is to extract the user'' @ [CHR 0x27] @ ''s budget and primary PC use case. ''
     @ ''Categorize the use case into one of these specific keywords: '' @ [CHR 0x27] @ ''gaming'' @ [CHR 0x27] @ '', '' @ [CHR 0x27] @ ''office'' @ [CHR 0x27] @ '', '' @ [CHR 0x27] @ ''editing'' @ [CHR 0x27] @ '', or '' @ [CHR 0x27] @ ''unknown'' @ [CHR 0x27] @ ''. ''
     @ ''Determine the budget as an integer. Also, determine if the user has just confirmed the plan by saying '' @ [CHR 0x27] @ ''yes'' @ [CHR 0x27] @ '' or '' @ [CHR 0x27] @ ''correct'' @ [CHR 0x27] @ ''.''"

text \<open>The dictionary that \<open>analyze_user_needs\<close> passes to \<open>chain.invoke\<close>.\<close>

abbreviation chain_input :: "env \<Rightarrow> string \<Rightarrow> (string \<times> string) list" where
  "chain_input env chat_history_str \<equiv>
     [(''system_prompt'', system_prompt),
      (''format_prompt'', format_instructions env),
      (''user_prompt'', chat_history_str)]"

definition analyze_user_needs :: "env \<Rightarrow> string \<Rightarrow> needs \<times> call list" where
  "analyze_user_needs env chat_history_str =
    (case chain_invoke env (chain_input env chat_history_str) of
       (Inr response, calls) \<Rightarrow> (response, Extract_call chat_history_str # calls)
     | (Inl e, calls) \<Rightarrow>
         (\<lparr>budget = 0, use_case = ''unknown'', has_confirmed = False\<rparr>,
          Extract_call chat_history_str # calls))"

section \<open>Price lookup\<close>

definition search_amazon_for_component :: "env \<Rightarrow> string \<Rightarrow> search_result \<times> call list" where
  "search_amazon_for_component env part_name =
    (let q = ''amazon.com '' @ part_name;
         results = (case shopping_results env q of None \<Rightarrow> [] | Some rs \<Rightarrow> rs)
     in (case results of
           product # _ \<Rightarrow>
             \<lparr>name = get_default product ''title'' part_name,
              price = get_default product ''price'' ''N/A'',
              link = get_default product ''link'' ''#'',
              image_field = get_default product ''thumbnail'' []\<rparr>
         | [] \<Rightarrow> \<lparr>name = part_name, price = ''Not Found'', link = ''#'', image_field = []\<rparr>,
         [Search_call q]))"

section \<open>Turn Orchestrator\<close>

fun join :: "string \<Rightarrow> string list \<Rightarrow> string" where
  "join sep [] = []"
| "join sep [x] = x"
| "join sep (x # y # ys) = x @ sep @ join sep (y # ys)"

text \<open>
  The loop over \<open>selected_build["parts"].items()\<close>, with the list that it appends to and
  the calls made so far.
\<close>

fun lookup_loop ::
  "env \<Rightarrow> (string \<times> string) list \<Rightarrow> part list \<Rightarrow> call list \<Rightarrow> part list \<times> call list" where
  "lookup_loop env [] final_parts_list calls = (final_parts_list, calls)"
| "lookup_loop env ((part_type, part_name) # items) final_parts_list calls =
    (let (search_result, made) = search_amazon_for_component env part_name
     in lookup_loop env items
          (final_parts_list @ [search_result.extend search_result \<lparr>type = part_type\<rparr>])
          (calls @ made))"

text \<open>The strings that the orchestrator answers with, and the transcript that it builds.\<close>

definition greeting :: string where
  "greeting = ''Hello! I'' @ [CHR 0x27] @ ''m your PC building expert assistant. To get started, what do you plan to use this PC for and what is your approximate budget?''"

definition ask_budget :: string where
  "ask_budget = ''I see. And what is your approximate budget for the new PC?''"

definition ask_use_case :: "needs \<Rightarrow> string" where
  "ask_use_case n =
     ''Got it, a budget of around $'' @ str_int (budget n)
     @ ''. What is the primary use for this PC? For example: high-end gaming, video editing, or just office work and web Browse?''"

definition ask_confirm :: "needs \<Rightarrow> string" where
  "ask_confirm n =
     ''Okay, just to confirm: you'' @ [CHR 0x27] @ ''re looking for a PC for **''
     @ use_case n @ ''** with a budget around **$'' @ str_int (budget n)
     @ ''**. Is that correct?''"

definition failure_message :: string where
  "failure_message = ''I'' @ [CHR 0x27] @ ''m so'' @ ''rry, I encountered an error while searching for parts. Please try again.''"

definition history_str :: "(string \<times> string) list \<Rightarrow> string \<Rightarrow> string" where
  "history_str chat_history user_message =
     join ''\<newline>''
       (map (\<lambda>turn. ''User: '' @ fst turn @ ''\<newline>Assistant: '' @ snd turn) chat_history)
     @ ''\<newline>User: '' @ user_message"

definition get_assistant_response ::
  "env \<Rightarrow> string \<Rightarrow> (string \<times> string) list \<Rightarrow> (error + string) \<times> call list" where
  "get_assistant_response env user_message chat_history =
    (if chat_history = [] then (Inr greeting, [])
     else
       let (needs, calls) = analyze_user_needs env (history_str chat_history user_message)
       in if budget needs = 0 then (Inr ask_budget, calls)
          else if use_case needs = ''unknown'' then (Inr (ask_use_case needs), calls)
          else if \<not> has_confirmed needs then (Inr (ask_confirm needs), calls)
          else
            (case select_build_tier (budget needs) (use_case needs) of
               Inl e \<Rightarrow> (Inl e, calls)
             | Inr selected_build \<Rightarrow>
                (let (final_parts_list, calls') =
                       lookup_loop env (parts selected_build) [] calls
                 in if final_parts_list = [] then (Inr failure_message, calls')
                    else (format_results_as_markdown selected_build final_parts_list, calls'))))"

section \<open>The estimated total as the specification words it\<close>

text \<open>
  For each price string: strip every character that is not a digit or a decimal point;
  an empty rest contributes zero, any other rest is parsed as a float.  The contributions
  are added in the order of the listings, starting from zero.
\<close>

definition spec_contribution :: "string \<Rightarrow> error + pyfloat" where
  "spec_contribution price_string =
    (let stripped = filter (\<lambda>c. is_digit c \<or> c = CHR ''.'') price_string
     in if stripped = [] then Inr (Finite 0) else py_float stripped)"

fun spec_total_from :: "pyfloat \<Rightarrow> string list \<Rightarrow> error + pyfloat" where
  "spec_total_from total_price [] = Inr total_price"
| "spec_total_from total_price (p # ps) =
    (case spec_contribution p of
       Inl e \<Rightarrow> Inl e
     | Inr x \<Rightarrow> spec_total_from (float_add total_price x) ps)"

definition spec_total :: "string list \<Rightarrow> error + pyfloat" where
  "spec_total prices = spec_total_from (Finite 0) prices"

text \<open>The floats that the program can hold: infinity, and what rounding yields.\<close>

definition nonneg_double :: "pyfloat \<Rightarrow> bool" where
  "nonneg_double x = (x = Infinity \<or> (\<exists>q. 0 \<le> q \<and> round_double q = x))"

text \<open>
  The price strings that the assembler can total: what is left after stripping is empty, or
  is a decimal literal (a digit, and at most one point).
\<close>

definition price_parses :: "string \<Rightarrow> bool" where
  "price_parses p =
    (let s = strip_non_numeric p
     in s = [] \<or> list_ex is_digit s \<and> length (filter (\<lambda>c. c = CHR ''.'') s) \<le> 1)"

section \<open>Stand-ins for the collaborators\<close>

text \<open>
  Collaborators with fixed answers, for instantiating what is proved of every environment:
  a language model that returns or raises \<open>answer\<close>, a parser that returns or raises
  \<open>parsed\<close>, and a search service that lists one product per query, priced \<open>p\<close>.
  \<open>user_prompt_template\<close> is not the module's template (that is \<open>llama_template\<close>): it
  is a template whose only input variable is the key that \<open>analyze_user_needs\<close> passes,
  so that the chain can return a record.  Nothing that is said of the module itself rests
  on it.
\<close>

definition stub_env ::
  "prompt_template \<Rightarrow> (error + string) \<Rightarrow> (error + needs) \<Rightarrow> string \<Rightarrow> env" where
  "stub_env t answer parsed p =
    \<lparr>prompt = t,
     LLM = (\<lambda>_. answer),
     json_parser = (\<lambda>_. parsed),
     format_instructions = ''Return a JSON object.'',
     shopping_results = (\<lambda>q. Some ([(''title'', q), (''price'', p)] # []))\<rparr>"

definition user_prompt_template :: prompt_template where
  "user_prompt_template = \<lparr>template = ''{user_prompt}'', input_variables = [''user_prompt'']\<rparr>"

section \<open>Facts about the built-ins\<close>

lemma contains_iff: "contains sub s \<longleftrightarrow> (\<exists>p t. s = p @ sub @ t)"
proof (induction s)
  case Nil
  show ?case by auto
next
  case (Cons c cs)
  show ?case
  proof
    assume "contains sub (c # cs)"
    then consider "prefix sub (c # cs)" | "contains sub cs" by auto
    then show "\<exists>p t. c # cs = p @ sub @ t"
    proof cases
      case 1
      then obtain t where "c # cs = sub @ t" by (auto simp: prefix_def)
      then have "c # cs = [] @ sub @ t" by simp
      then show ?thesis by blast
    next
      case 2
      with Cons.IH obtain p t where "cs = p @ sub @ t" by blast
      then have "c # cs = (c # p) @ sub @ t" by simp
      then show ?thesis by blast
    qed
  next
    assume "\<exists>p t. c # cs = p @ sub @ t"
    then obtain p t where pt: "c # cs = p @ sub @ t" by blast
    show "contains sub (c # cs)"
    proof (cases p)
      case Nil
      with pt have "prefix sub (c # cs)" by (simp add: prefix_def)
      then show ?thesis by simp
    next
      case (Cons a p')
      with pt have "cs = p' @ sub @ t" by simp
      with Cons.IH have "contains sub cs" by blast
      then show ?thesis by simp
    qed
  qed
qed

subsection \<open>Rounding to a double\<close>

lemma round_half_even_of_int [simp]: "round_half_even (of_int k) = k"
  by (simp add: round_half_even_def)

lemma round_half_even_ge: "of_int N \<le> x \<Longrightarrow> N \<le> round_half_even x"
proof -
  assume "of_int N \<le> x"
  then have "N \<le> \<lfloor>x\<rfloor>" by (simp add: le_floor_iff)
  then show ?thesis unfolding round_half_even_def Let_def by auto
qed

lemma round_half_even_le: "x \<le> of_int N \<Longrightarrow> round_half_even x \<le> N"
proof -
  assume a: "x \<le> of_int N"
  have f: "\<lfloor>x\<rfloor> \<le> N" using a by (simp add: floor_le_iff)
  show ?thesis
  proof (cases "x = of_int \<lfloor>x\<rfloor>")
    case True
    then have "round_half_even x = \<lfloor>x\<rfloor>" by (metis round_half_even_of_int)
    with f show ?thesis by simp
  next
    case False
    then have "of_int \<lfloor>x\<rfloor> \<noteq> x" by (rule not_sym)
    moreover have "of_int \<lfloor>x\<rfloor> \<le> x" by (rule of_int_floor_le)
    ultimately have "of_int \<lfloor>x\<rfloor> < x" by (rule order.not_eq_order_implies_strict)
    with a have "of_int \<lfloor>x\<rfloor> < (of_int N :: rat)" by linarith
    then have "\<lfloor>x\<rfloor> < N" by simp
    then show ?thesis unfolding round_half_even_def Let_def by auto
  qed
qed

lemma int_bitlen_powi:
  assumes "0 < (n::int)"
  shows "2 powi (bitlen n - 1) \<le> (of_int n :: rat) \<and> (of_int n :: rat) < 2 powi (bitlen n)"
proof -
  from assms have b1: "1 \<le> bitlen n" by (auto simp: bitlen_alt_def)
  from bitlen_bounds [OF assms]
  have "(2::int) ^ nat (bitlen n - 1) \<le> n" and "n < 2 ^ nat (bitlen n)" by auto
  then have "(of_int ((2::int) ^ nat (bitlen n - 1)) :: rat) \<le> of_int n"
    and "(of_int n :: rat) < of_int (2 ^ nat (bitlen n))"
    by (simp_all only: of_int_le_iff of_int_less_iff)
  then show ?thesis using b1 by (simp add: power_int_nonneg_exp)
qed

lemma ilog2_bounds:
  assumes "0 < q"
  shows "2 powi (ilog2 q) \<le> q \<and> q < 2 powi (ilog2 q + 1)"
proof -
  obtain n d where nd: "quotient_of q = (n, d)" by (cases "quotient_of q")
  then have d: "0 < d" and q: "q = of_int n / of_int d"
    using quotient_of_denom_pos quotient_of_div by blast+
  with assms have n: "0 < n" by (simp add: zero_less_divide_iff)
  define k where "k = bitlen n - bitlen d"
  have bn: "2 powi (bitlen n - 1) \<le> (of_int n :: rat)" "(of_int n :: rat) < 2 powi (bitlen n)"
    using int_bitlen_powi [OF n] by auto
  have bd: "2 powi (bitlen d - 1) \<le> (of_int d :: rat)" "(of_int d :: rat) < 2 powi (bitlen d)"
    using int_bitlen_powi [OF d] by auto
  have dpos: "(0::rat) < of_int d" using d by simp
  have "2 powi (k - 1) * of_int d < (2 powi (k - 1) :: rat) * 2 powi (bitlen d)"
    using bd(2) by simp
  also have "\<dots> = 2 powi (bitlen n - 1)"
    by (simp add: k_def power_int_add [symmetric])
  also have "\<dots> \<le> of_int n" by (rule bn(1))
  finally have lo: "2 powi (k - 1) < q"
    using dpos by (simp add: q pos_less_divide_eq)
  have "(of_int n :: rat) < 2 powi (bitlen n)" by (rule bn(2))
  also have "\<dots> = 2 powi (k + 1) * 2 powi (bitlen d - 1)"
    by (simp add: k_def power_int_add [symmetric])
  also have "\<dots> \<le> 2 powi (k + 1) * of_int d"
    using bd(1) by simp
  finally have hi: "q < 2 powi (k + 1)"
    using dpos by (simp add: q pos_divide_less_eq)
  have il: "ilog2 q = (if 2 powi k \<le> q then k else k - 1)"
    by (simp add: ilog2_def nd k_def Let_def)
  show ?thesis
  proof (cases "2 powi k \<le> q")
    case True
    with hi show ?thesis by (simp add: il)
  next
    case False
    with lo show ?thesis by (simp add: il)
  qed
qed

lemma powi_less_exp:
  assumes "(2::rat) powi a < 2 powi b"
  shows "a < b"
proof (rule ccontr)
  assume "\<not> a < b"
  then have "b \<le> a" by simp
  then have "(2::rat) powi b \<le> 2 powi a" by (rule power_int_increasing) simp
  with assms show False by simp
qed

lemma ilog2_unique:
  assumes "0 < q" and "2 powi a \<le> q" and "q < 2 powi (a + 1)"
  shows "ilog2 q = a"
proof -
  from ilog2_bounds [OF assms(1)]
  have b: "2 powi (ilog2 q) \<le> q" "q < 2 powi (ilog2 q + 1)" by auto
  from assms(2) b(2) have "(2::rat) powi a < 2 powi (ilog2 q + 1)" by (rule le_less_trans)
  then have 1: "a < ilog2 q + 1" by (rule powi_less_exp)
  from b(1) assms(3) have "(2::rat) powi (ilog2 q) < 2 powi (a + 1)" by (rule le_less_trans)
  then have 2: "ilog2 q < a + 1" by (rule powi_less_exp)
  from 1 2 show ?thesis by simp
qed


lemma round_double_zero [simp]: "round_double 0 = Finite 0"
  by (simp add: round_double_def)

lemma round_double_idem:
  assumes q: "0 < q" and r: "round_double q = Finite v"
  shows "round_double v = Finite v"
proof -
  define e where "e = max (ilog2 q - 52) (- 1074)"
  define m where "m = round_half_even (q / 2 powi e)"
  have p2: "(0::rat) < 2 powi i" for i by simp
  from r q have v: "v = of_int m * 2 powi e" and fin: "\<not> 2 powi 1024 \<le> v"
    by (auto simp: round_double_def Let_def e_def m_def split: if_splits)
  from ilog2_bounds [OF q] have "q < 2 powi (ilog2 q + 1)" by simp
  also have "(2::rat) powi (ilog2 q + 1) \<le> 2 powi (e + 53)"
    by (rule power_int_increasing) (simp_all add: e_def)
  also have "\<dots> = 2 powi e * 2 powi 53"
    by (rule power_int_add) simp
  finally have "q / 2 powi e < 2 powi 53"
    using p2 [of e] by (simp add: pos_divide_less_eq mult.commute)
  then have "q / 2 powi e \<le> of_int (2 ^ 53)" by simp
  then have m_le: "m \<le> 2 ^ 53" unfolding m_def by (rule round_half_even_le)
  have "of_int 0 \<le> q / 2 powi e" using q by simp
  then have m_ge: "0 \<le> m" unfolding m_def by (rule round_half_even_ge)
  show ?thesis
  proof (cases "m = 0")
    case True
    then show ?thesis by (simp add: v)
  next
    case False
    with m_ge have mpos: "0 < m" by simp
    then have vpos: "0 < v" by (simp add: v)
    define e' where "e' = max (ilog2 v - 52) (- 1074)"
    have e_ge: "- 1074 \<le> e" by (simp add: e_def)
    have "\<exists>k. v / 2 powi e' = of_int k"
    proof (cases "m = 2 ^ 53")
      case True
      have "(2::rat) powi (e + 53) = 2 powi 53 * 2 powi e"
        by (simp only: add.commute [of e 53]) (rule power_int_add, simp)
      then have v2: "v = 2 powi (e + 53)" by (simp add: v True)
      have "ilog2 v = e + 53"
      proof (rule ilog2_unique [OF vpos])
        show "2 powi (e + 53) \<le> v" by (simp add: v2)
        have "(2::rat) powi (e + 53) < 2 powi (e + 53 + 1)"
          by (rule power_int_strict_increasing) simp_all
        then show "v < 2 powi (e + 53 + 1)" by (simp add: v2)
      qed
      with e_ge have e': "e' = e + 1" by (simp add: e'_def)
      have "(2::rat) powi (e + 53) = 2 powi (e + 1) * 2 powi 52"
        using power_int_add [of "2::rat" "e + 1" 52] by (simp add: add.commute)
      then have "v / 2 powi e' = of_int (2 ^ 52)"
        by (simp add: v2 e')
      then show ?thesis by blast
    next
      case False
      with m_le have "m < 2 ^ 53" by simp
      then have "(of_int m :: rat) < of_int (2 ^ 53)" by (simp only: of_int_less_iff)
      then have "v < 2 powi 53 * 2 powi e"
        using p2 [of e] by (simp add: v)
      also have "\<dots> = 2 powi (e + 53)"
        by (simp only: add.commute [of e 53]) (rule power_int_add [symmetric], simp)
      finally have "v < 2 powi (e + 53)" .
      with ilog2_bounds [OF vpos] have "(2::rat) powi (ilog2 v) < 2 powi (e + 53)"
        by simp
      then have "ilog2 v < e + 53" by (rule powi_less_exp)
      with e_ge have le: "e' \<le> e" by (simp add: e'_def)
      have "(2::rat) powi e = 2 powi (e - e') * 2 powi e'"
        using power_int_add [of "2::rat" "e - e'" e'] by simp
      then have "v / 2 powi e' = of_int m * 2 powi (e - e')"
        by (simp add: v)
      also from le have "\<dots> = of_int (m * 2 ^ nat (e - e'))"
        by (simp add: power_int_nonneg_exp)
      finally show ?thesis by blast
    qed
    then obtain k where k: "v / 2 powi e' = of_int k" by blast
    have "v / 2 powi e' * 2 powi e' = v" by simp
    with k have "of_int (round_half_even (v / 2 powi e')) * 2 powi e' = v"
      by (simp only: round_half_even_of_int)
    with fin vpos show ?thesis
      by (simp add: round_double_def Let_def e'_def)
  qed
qed

lemma ilog2_nonpos: 
  assumes "v \<le> 0" shows "ilog2 v < 0"
proof -
  obtain n d where nd: "quotient_of v = (n, d)" by (cases "quotient_of v")
  then have d: "0 < d" and q: "v = of_int n / of_int d"
    using quotient_of_denom_pos quotient_of_div by blast+
  from assms d have "n \<le> 0" by (simp add: q divide_le_0_iff)
  then have bn: "bitlen n = 0" by (simp add: bitlen_eq_zero_iff)
  from d have "bitlen d \<noteq> 0" by (simp add: bitlen_eq_zero_iff)
  with bitlen_nonneg [of d] have "0 < bitlen d" by simp
  then show ?thesis by (simp add: ilog2_def nd bn Let_def)
qed

lemma overflow_iff: "2 powi 1024 \<le> v \<longleftrightarrow> 1024 \<le> ilog2 v"
proof (cases "0 < v")
  case True
  from ilog2_bounds [OF True]
  have b: "2 powi (ilog2 v) \<le> v" "v < 2 powi (ilog2 v + 1)" by auto
  show ?thesis
  proof
    assume "2 powi 1024 \<le> v"
    from this b(2) have "(2::rat) powi 1024 < 2 powi (ilog2 v + 1)" by (rule le_less_trans)
    then have "1024 < ilog2 v + 1" by (rule powi_less_exp)
    then show "1024 \<le> ilog2 v" by simp
  next
    assume "1024 \<le> ilog2 v"
    then have "(2::rat) powi 1024 \<le> 2 powi (ilog2 v)" by (rule power_int_increasing) simp
    with b(1) show "2 powi 1024 \<le> v" by (rule order_trans [rotated])
  qed
next
  case False
  then have v: "v \<le> 0" by simp
  have "(0::rat) < 2 powi 1024" by simp
  with v have "\<not> 2 powi 1024 \<le> v" by linarith
  moreover from ilog2_nonpos [OF v] have "\<not> 1024 \<le> ilog2 v" by simp
  ultimately show ?thesis by simp
qed

lemma round_double_code [code]:
  "round_double q =
    (if q = 0 then Finite 0
     else let e = max (ilog2 q - 52) (- 1074);
              v = of_int (round_half_even (q / 2 powi e)) * 2 powi e
          in if 1024 \<le> ilog2 v then Infinity else Finite v)"
  unfolding round_double_def overflow_iff by (rule refl)

lemma round_double_nonneg:
  assumes "0 \<le> q" and "round_double q = Finite v"
  shows "0 \<le> v"
proof (cases "q = 0")
  case True
  with assms show ?thesis by simp
next
  case False
  define e where "e = max (ilog2 q - 52) (- 1074)"
  have "of_int 0 \<le> q / 2 powi e" using assms(1) by simp
  then have "0 \<le> round_half_even (q / 2 powi e)" by (rule round_half_even_ge)
  moreover from assms(2) False have "v = of_int (round_half_even (q / 2 powi e)) * 2 powi e"
    by (auto simp: round_double_def Let_def e_def split: if_splits)
  ultimately show ?thesis by simp
qed

lemma nonneg_double_round: "0 \<le> q \<Longrightarrow> nonneg_double (round_double q)"
  unfolding nonneg_double_def by blast

lemma nonneg_double_Finite: "nonneg_double (Finite v) \<Longrightarrow> 0 \<le> v"
  unfolding nonneg_double_def using round_double_nonneg by blast

lemma nonneg_double_zero: "nonneg_double (Finite 0)"
  unfolding nonneg_double_def using round_double_zero by blast

lemma nonneg_double_add:
  assumes "nonneg_double x" and "nonneg_double y"
  shows "nonneg_double (float_add x y)"
proof (cases x)
  case Infinity
  then show ?thesis by (simp add: float_add_def nonneg_double_def)
next
  case fx: (Finite a)
  show ?thesis
  proof (cases y)
    case Infinity
    then show ?thesis by (simp add: float_add_def nonneg_double_def fx)
  next
    case (Finite b)
    from assms fx Finite have "0 \<le> a + b"
      by (auto dest!: nonneg_double_Finite)
    then show ?thesis by (simp add: float_add_def fx Finite nonneg_double_round)
  qed
qed

lemma float_add_zero:
  assumes "nonneg_double x"
  shows "float_add x (Finite 0) = x"
proof (cases x)
  case Infinity
  then show ?thesis by (simp add: float_add_def)
next
  case (Finite v)
  from assms Finite obtain q where q: "0 \<le> q" "round_double q = Finite v"
    unfolding nonneg_double_def by auto
  have "round_double v = Finite v"
  proof (cases "q = 0")
    case True
    with q show ?thesis by simp
  next
    case False
    with q have "0 < q" by simp
    then show ?thesis using q(2) by (rule round_double_idem)
  qed
  then show ?thesis by (simp add: float_add_def Finite)
qed

lemma digits_val_nonneg: "0 \<le> digits_val ds"
proof -
  have "0 \<le> acc \<Longrightarrow> 0 \<le> foldl (\<lambda>acc c. 10 * acc + int (digit_val c)) acc ds" for acc
    by (induction ds arbitrary: acc) simp_all
  then show ?thesis by (simp add: digits_val_def)
qed

lemma nonneg_double_py_float:
  assumes "py_float s = Inr x"
  shows "nonneg_double x"
proof -
  let ?q = "of_int (digits_val (takeWhile is_digit s))
            + of_int (digits_val (drop 1 (dropWhile is_digit s)))
              / 10 ^ length (drop 1 (dropWhile is_digit s)) :: rat"
  have "0 \<le> ?q" by (simp add: digits_val_nonneg)
  moreover from assms have "x = round_double ?q"
    by (auto simp: py_float_def Let_def split: if_splits)
  ultimately show ?thesis by (simp add: nonneg_double_round)
qed

lemma format_loop_refines:
  assumes "nonneg_double t0"
  shows "format_loop ps t0 md =
    (case spec_total_from t0 (map price ps) of
       Inl e \<Rightarrow> Inl e
     | Inr t \<Rightarrow> Inr (t, md @ concat (map table_row ps)))"
  using assms
proof (induction ps arbitrary: t0 md)
  case Nil
  show ?case by simp
next
  case (Cons p ps)
  show ?case
  proof (cases "strip_non_numeric (price p) = []")
    case True
    then have c: "spec_contribution (price p) = Inr (Finite 0)"
      by (simp add: spec_contribution_def strip_non_numeric_def)
    from Cons.prems have "float_add t0 (Finite 0) = t0" by (rule float_add_zero)
    with True c Cons.IH [OF Cons.prems] show ?thesis by (simp split: sum.splits)
  next
    case False
    then have c: "spec_contribution (price p) = py_float (strip_non_numeric (price p))"
      by (simp add: spec_contribution_def strip_non_numeric_def)
    show ?thesis
    proof (cases "py_float (strip_non_numeric (price p))")
      case (Inl e)
      with False c show ?thesis by simp
    next
      case (Inr x)
      then have "nonneg_double x" by (rule nonneg_double_py_float)
      with Cons.prems have "nonneg_double (float_add t0 x)" by (rule nonneg_double_add)
      from Cons.IH [OF this] False c Inr show ?thesis by (simp split: sum.splits)
    qed
  qed
qed

lemma digit_char_is_digit:
  assumes "0 \<le> d" and "d < 10"
  shows "is_digit (digit_char d)"
proof -
  from assms have "d \<in> {0, 1, 2, 3, 4, 5, 6, 7, 8, 9}" by simp presburger
  then show ?thesis by (auto simp: is_digit_def digit_char_def)
qed

lemma str_digits_digits:
  "0 \<le> i \<Longrightarrow> str_digits i \<noteq> [] \<and> list_all is_digit (str_digits i)"
proof (induction i rule: str_digits.induct)
  case (1 i)
  show ?case
  proof (cases "i < 10")
    case True
    then have "str_digits i = [digit_char i]" by (subst str_digits.simps) simp
    with True "1.prems" show ?thesis by (simp add: digit_char_is_digit)
  next
    case False
    then have s: "str_digits i = str_digits (i div 10) @ [digit_char (i mod 10)]"
      by (subst str_digits.simps) simp
    have "0 \<le> i mod 10" "i mod 10 < 10" by simp_all
    then have d: "is_digit (digit_char (i mod 10))" by (rule digit_char_is_digit)
    from "1.prems" have "0 \<le> i div 10" by simp
    with False "1.IH" have "str_digits (i div 10) \<noteq> [] \<and> list_all is_digit (str_digits (i div 10))"
      by simp
    with d s show ?thesis by simp
  qed
qed

lemma format_2f_two_decimals:
  assumes "0 \<le> v"
  shows "\<exists>ds d1 d2. format_2f (Finite v) = ds @ ''.'' @ [d1, d2]
     \<and> ds \<noteq> [] \<and> list_all is_digit ds \<and> is_digit d1 \<and> is_digit d2"
proof -
  define n where "n = round_half_even (v * 100)"
  from assms have "of_int 0 \<le> v * 100" by simp
  then have n0: "0 \<le> n" unfolding n_def by (rule round_half_even_ge)
  have "0 \<le> n mod 100 div 10" "n mod 100 div 10 < 10" by (simp_all add: pos_imp_zdiv_nonneg_iff)
  then have 1: "is_digit (digit_char (n mod 100 div 10))" by (rule digit_char_is_digit)
  have "0 \<le> n mod 10" "n mod 10 < 10" by simp_all
  then have 2: "is_digit (digit_char (n mod 10))" by (rule digit_char_is_digit)
  from n0 have "0 \<le> n div 100" by simp
  then have 3: "str_digits (n div 100) \<noteq> [] \<and> list_all is_digit (str_digits (n div 100))"
    by (rule str_digits_digits)
  have "format_2f (Finite v)
      = str_digits (n div 100) @ ''.'' @ [digit_char (n mod 100 div 10), digit_char (n mod 10)]"
    by (simp add: format_2f_def Let_def n_def)
  with 1 2 3 show ?thesis by blast
qed


lemma round_double_overflow:
  assumes "2 powi 1024 \<le> q"
  shows "round_double q = Infinity"
proof -
  have "(0::rat) < 2 powi 1024" by simp
  from this assms have qpos: "0 < q" by (rule less_le_trans)
  from assms have big: "1024 \<le> ilog2 q" by (simp only: overflow_iff)
  define e where "e = ilog2 q - 52"
  from big have e: "max (ilog2 q - 52) (- 1074) = e" by (simp add: e_def)
  have split: "(2::rat) powi (ilog2 q) = 2 powi 52 * 2 powi e"
    using power_int_add [of "2::rat" 52 e] by (simp add: e_def)
  from ilog2_bounds [OF qpos] have "2 powi (ilog2 q) \<le> q" by simp
  then have "of_int (2 ^ 52) \<le> q / 2 powi e"
    by (simp add: split pos_le_divide_eq)
  then have "2 ^ 52 \<le> round_half_even (q / 2 powi e)" by (rule round_half_even_ge)
  then have "(of_int (2 ^ 52) :: rat) \<le> of_int (round_half_even (q / 2 powi e))"
    by (simp only: of_int_le_iff)
  then have "(of_int (2 ^ 52) :: rat) * 2 powi e
      \<le> of_int (round_half_even (q / 2 powi e)) * 2 powi e"
    by (rule mult_right_mono) simp
  then have "(2::rat) powi (ilog2 q) \<le> of_int (round_half_even (q / 2 powi e)) * 2 powi e"
    by (simp add: split)
  moreover from big have "(2::rat) powi 1024 \<le> 2 powi (ilog2 q)"
    by (rule power_int_increasing) simp
  ultimately have "(2::rat) powi 1024 \<le> of_int (round_half_even (q / 2 powi e)) * 2 powi e"
    by (rule order_trans [rotated])
  with qpos show ?thesis by (simp add: round_double_def e Let_def)
qed

section \<open>Build Selector: the tier for every budget and use case\<close>

lemma subscript_PC_BUILDS:
  "subscript PC_BUILDS ''budget_office'' = Inr budget_office"
  "subscript PC_BUILDS ''mid_range_gaming'' = Inr mid_range_gaming"
  "subscript PC_BUILDS ''high_end_gaming'' = Inr high_end_gaming"
  "subscript PC_BUILDS ''professional_workstation'' = Inr professional_workstation"
  by (simp_all add: subscript_def PC_BUILDS_def)

lemma select_build_tier_cases:
  "select_build_tier b uc =
    Inr (if contains ''gaming'' uc then (if b < 1600 then mid_range_gaming else high_end_gaming)
         else if contains ''editing'' uc then professional_workstation
         else if contains ''office'' uc then budget_office
         else if b \<le> 700 then budget_office
         else if b \<le> 1600 then mid_range_gaming
         else high_end_gaming)"
  by (simp add: select_build_tier_def subscript_PC_BUILDS)

lemma tiers_distinct:
  "distinct [budget_office, mid_range_gaming, high_end_gaming, professional_workstation]"
  by (simp add: budget_office_def mid_range_gaming_def high_end_gaming_def
      professional_workstation_def)

text \<open>
  Claim C5.  For every budget and every use case that contains \<open>gaming\<close> (\<open>contains\<close> is
  the substring test, see \<open>contains_iff\<close>), the selector returns the mid-range gaming tier
  when the budget is below 1600 and the high-end gaming tier from 1600 on, whatever the
  budget above that; so 1500 gives mid-range and 1600 gives high-end, and the two tiers
  differ.
\<close>

theorem select_gaming:
  "(contains ''gaming'' uc \<longrightarrow>
      select_build_tier b uc = Inr (if b < 1600 then mid_range_gaming else high_end_gaming))
   \<and> select_build_tier 1500 ''gaming'' = Inr mid_range_gaming
   \<and> select_build_tier 1600 ''gaming'' = Inr high_end_gaming
   \<and> mid_range_gaming \<noteq> high_end_gaming"
  using tiers_distinct by (simp add: select_build_tier_cases)

theorem select_gaming_witness:
  "contains ''gaming'' ''high-end gaming''
   \<and> select_build_tier 1599 ''high-end gaming'' = Inr mid_range_gaming
   \<and> select_build_tier 999999 ''high-end gaming'' = Inr high_end_gaming"
proof -
  have h: "contains ''gaming'' ''high-end gaming''" by simp
  from h select_gaming [of "''high-end gaming''" 1599]
    select_gaming [of "''high-end gaming''" 999999]
  show ?thesis by simp
qed

text \<open>
  Claim C6.  The selector is total: for every integer budget and every use case it
  returns a tier, and the tier is one of the four of the catalog.  A use case with
  \<open>editing\<close> and without \<open>gaming\<close> gives the professional workstation whatever the budget;
  one with \<open>office\<close> and neither \<open>gaming\<close> nor \<open>editing\<close> gives the budget office tier
  whatever the budget; a use case with none of the three words is decided by the budget
  alone: up to 700 budget office, up to 1600 mid-range gaming, above that high-end gaming.
\<close>

theorem select_total:
  "(\<exists>t. select_build_tier b uc = Inr t
        \<and> t \<in> {budget_office, mid_range_gaming, high_end_gaming, professional_workstation}
        \<and> t \<in> snd ` set PC_BUILDS)
   \<and> (\<not> contains ''gaming'' uc \<and> contains ''editing'' uc \<longrightarrow>
        select_build_tier b uc = Inr professional_workstation)
   \<and> (\<not> contains ''gaming'' uc \<and> \<not> contains ''editing'' uc \<and> contains ''office'' uc \<longrightarrow>
        select_build_tier b uc = Inr budget_office)
   \<and> (\<not> contains ''gaming'' uc \<and> \<not> contains ''editing'' uc \<and> \<not> contains ''office'' uc \<longrightarrow>
        select_build_tier b uc =
          Inr (if b \<le> 700 then budget_office
               else if b \<le> 1600 then mid_range_gaming else high_end_gaming))"
  by (simp add: select_build_tier_cases PC_BUILDS_def)

theorem select_total_witness:
  "(\<not> contains ''gaming'' ''video editing'' \<and> contains ''editing'' ''video editing'')
   \<and> select_build_tier 999999 ''video editing'' = Inr professional_workstation
   \<and> (\<not> contains ''gaming'' ''office work'' \<and> \<not> contains ''editing'' ''office work''
        \<and> contains ''office'' ''office work'')
   \<and> select_build_tier 5000 ''office work'' = Inr budget_office
   \<and> (\<not> contains ''gaming'' ''unknown'' \<and> \<not> contains ''editing'' ''unknown''
        \<and> \<not> contains ''office'' ''unknown'')
   \<and> select_build_tier 500 ''unknown'' = Inr budget_office
   \<and> select_build_tier 700 ''unknown'' = Inr budget_office
   \<and> select_build_tier 701 ''unknown'' = Inr mid_range_gaming
   \<and> select_build_tier 1600 ''unknown'' = Inr mid_range_gaming
   \<and> select_build_tier 1601 ''unknown'' = Inr high_end_gaming"
proof -
  have e: "\<not> contains ''gaming'' ''video editing'' \<and> contains ''editing'' ''video editing''"
    by simp
  have w: "\<not> contains ''gaming'' ''office work'' \<and> \<not> contains ''editing'' ''office work''
        \<and> contains ''office'' ''office work''"
    by simp
  have u: "\<not> contains ''gaming'' ''unknown'' \<and> \<not> contains ''editing'' ''unknown''
        \<and> \<not> contains ''office'' ''unknown''"
    by simp
  from e w u
    select_total [of 999999 "''video editing''"] select_total [of 5000 "''office work''"]
    select_total [of 500 "''unknown''"] select_total [of 700 "''unknown''"]
    select_total [of 701 "''unknown''"] select_total [of 1600 "''unknown''"]
    select_total [of 1601 "''unknown''"]
  show ?thesis by simp
qed

section \<open>Report Assembler: the estimated total\<close>

lemma spec_total_from_nonneg:
  assumes "nonneg_double t0" and "spec_total_from t0 prices = Inr t"
  shows "nonneg_double t"
  using assms
proof (induction prices arbitrary: t0)
  case Nil
  then show ?case by simp
next
  case (Cons p ps)
  from Cons.prems(2) obtain x where x: "spec_contribution p = Inr x"
    and r: "spec_total_from (float_add t0 x) ps = Inr t"
    by (auto split: sum.splits)
  have "nonneg_double x"
  proof (cases "filter (\<lambda>c. is_digit c \<or> c = CHR ''.'') p = []")
    case True
    with x have "x = Finite 0" by (simp add: spec_contribution_def)
    then show ?thesis by (simp add: nonneg_double_zero)
  next
    case False
    with x show ?thesis by (simp add: spec_contribution_def nonneg_double_py_float)
  qed
  with Cons.prems(1) have "nonneg_double (float_add t0 x)" by (rule nonneg_double_add)
  then show ?case using r by (rule Cons.IH)
qed

lemma report_refines:
  "format_results_as_markdown b ps =
     (case spec_total (map price ps) of
        Inl e \<Rightarrow> Inl e
      | Inr t \<Rightarrow>
          Inr (table_header b @ concat (map table_row ps) @ total_line t @ disclaimer))"
  by (simp add: format_results_as_markdown_def spec_total_def
      format_loop_refines [OF nonneg_double_zero] split: sum.splits)

lemma total_line_shape:
  assumes "spec_total prices = Inr t"
  shows "t = Infinity \<and> total_line t = ''\<newline>**Estimated Total: $inf**''
       \<or> t \<noteq> Infinity \<and> (\<exists>ds d1 d2. total_line t = ''\<newline>**Estimated Total: $'' @ ds @ ''.'' @ [d1, d2] @ ''**''
            \<and> ds \<noteq> [] \<and> list_all is_digit ds \<and> is_digit d1 \<and> is_digit d2)"
proof (cases t)
  case Infinity
  then show ?thesis by (simp add: total_line_def format_2f_def)
next
  case (Finite v)
  from assms have "nonneg_double t"
    unfolding spec_total_def by (rule spec_total_from_nonneg [OF nonneg_double_zero])
  with Finite have "0 \<le> v" by (simp add: nonneg_double_Finite)
  from format_2f_two_decimals [OF this] Finite show ?thesis
    by (auto simp: total_line_def)
qed

lemma strip_only_numeric:
  "list_all (\<lambda>c. is_digit c \<or> c = CHR ''.'') (strip_non_numeric s)"
  by (simp add: strip_non_numeric_def list_all_iff)

lemma py_float_fails_iff:
  "(\<exists>e. py_float (strip_non_numeric s) = Inl e) \<longleftrightarrow>
     \<not> list_ex is_digit (strip_non_numeric s)
     \<or> 1 < length (filter (\<lambda>c. c = CHR ''.'') (strip_non_numeric s))"
  using strip_only_numeric [of s] by (auto simp: py_float_def Let_def)

lemma spec_total_from_fails_iff:
  "(\<exists>e. spec_total_from t0 prices = Inl e) \<longleftrightarrow>
     (\<exists>p \<in> set prices. strip_non_numeric p \<noteq> []
        \<and> (\<not> list_ex is_digit (strip_non_numeric p)
            \<or> 1 < length (filter (\<lambda>c. c = CHR ''.'') (strip_non_numeric p))))"
proof (induction prices arbitrary: t0)
  case Nil
  show ?case by simp
next
  case (Cons p ps)
  show ?case
  proof (cases "strip_non_numeric p = []")
    case True
    then have "spec_contribution p = Inr (Finite 0)"
      by (simp add: spec_contribution_def strip_non_numeric_def)
    with True Cons.IH [of "float_add t0 (Finite 0)"] show ?thesis by simp
  next
    case False
    then have c: "spec_contribution p = py_float (strip_non_numeric p)"
      by (simp add: spec_contribution_def strip_non_numeric_def)
    show ?thesis
    proof (cases "py_float (strip_non_numeric p)")
      case (Inl e)
      then have "\<exists>e. py_float (strip_non_numeric p) = Inl e" by blast
      with py_float_fails_iff [of p]
      have "\<not> list_ex is_digit (strip_non_numeric p)
            \<or> 1 < length (filter (\<lambda>c. c = CHR ''.'') (strip_non_numeric p))"
        by blast
      with False Inl c show ?thesis by auto
    next
      case (Inr x)
      then have "\<not> (\<exists>e. py_float (strip_non_numeric p) = Inl e)" by simp
      with py_float_fails_iff [of p]
      have "\<not> (\<not> list_ex is_digit (strip_non_numeric p)
            \<or> 1 < length (filter (\<lambda>c. c = CHR ''.'') (strip_non_numeric p)))"
        by blast
      with Inr c Cons.IH [of "float_add t0 x"] show ?thesis by auto
    qed
  qed
qed

lemma report_aborts_iff:
  "(\<exists>e. format_results_as_markdown b ps = Inl e) \<longleftrightarrow>
     (\<exists>p \<in> set ps. strip_non_numeric (price p) \<noteq> []
        \<and> (\<not> list_ex is_digit (strip_non_numeric (price p))
            \<or> 1 < length (filter (\<lambda>c. c = CHR ''.'') (strip_non_numeric (price p)))))"
proof -
  have "(\<exists>e. format_results_as_markdown b ps = Inl e)
      \<longleftrightarrow> (\<exists>e. spec_total_from (Finite 0) (map price ps) = Inl e)"
    by (auto simp: report_refines spec_total_def split: sum.splits)
  then show ?thesis by (simp add: spec_total_from_fails_iff)
qed

lemma py_float_overflow:
  assumes a: "list_all is_digit s" "s \<noteq> []" and big: "2 powi 1024 \<le> (of_int (digits_val s) :: rat)"
  shows "py_float s = Inr Infinity"
proof -
  from a have 1: "list_all (\<lambda>c. is_digit c \<or> c = CHR ''.'') s"
    by (simp add: list_all_iff)
  from a have 2: "list_ex is_digit s" by (cases s) simp_all
  have nd: "\<not> is_digit (CHR ''.'')" by (simp add: is_digit_def)
  with a(1) have 3: "filter (\<lambda>c. c = CHR ''.'') s = []"
    by (auto simp: list_all_iff filter_empty_conv)
  from a(1) have 4: "takeWhile is_digit s = s" by (simp add: list_all_iff)
  from a(1) have 5: "dropWhile is_digit s = []" by (simp add: list_all_iff)
  have "py_float s = Inr (round_double (of_int (digits_val s)))"
    by (simp add: py_float_def 1 2 3 4 5 digits_val_def)
  with round_double_overflow [OF big] show ?thesis by simp
qed

text \<open>
  Claim C4, as amended.  The report of the assembler is the header, one row per listing
  and the total line, where the total is the specification's: every price is stripped of
  the characters that are neither digits nor points, an empty rest contributes zero and any
  other rest its value as a float, added in order.  When a rest is not a decimal literal
  the parse raises and there is no report.  The total is rendered with exactly two
  decimals whenever it is finite; a sum beyond the range of a double is rendered \<open>inf\<close>.
  For the prices \<open>$199.99\<close>, \<open>Not Found\<close>, \<open>1,299.00\<close> the total is the double
  \<open>1498.99\<close> and is rendered \<open>1498.99\<close>.
\<close>

theorem estimated_total:
  "format_results_as_markdown b ps =
     (case spec_total (map price ps) of
        Inl e \<Rightarrow> Inl e
      | Inr t \<Rightarrow>
          Inr (table_header b @ concat (map table_row ps) @ total_line t @ disclaimer))
   \<and> (\<forall>t. spec_total (map price ps) = Inr t \<longrightarrow>
         t = Infinity \<and> total_line t = ''\<newline>**Estimated Total: $inf**''
         \<or> t \<noteq> Infinity
           \<and> (\<exists>ds d1 d2.
                 total_line t = ''\<newline>**Estimated Total: $'' @ ds @ ''.'' @ [d1, d2] @ ''**''
                 \<and> ds \<noteq> [] \<and> list_all is_digit ds \<and> is_digit d1 \<and> is_digit d2))
   \<and> spec_total [''$199.99'', ''Not Found'', ''1,299.00''] = py_float ''1498.99''
   \<and> map_sum id total_line (spec_total [''$199.99'', ''Not Found'', ''1,299.00''])
       = Inr ''\<newline>**Estimated Total: $1498.99**''"
proof (intro conjI allI impI)
  show "format_results_as_markdown b ps =
     (case spec_total (map price ps) of
        Inl e \<Rightarrow> Inl e
      | Inr t \<Rightarrow>
          Inr (table_header b @ concat (map table_row ps) @ total_line t @ disclaimer))"
    by (rule report_refines)
next
  fix t
  assume "spec_total (map price ps) = Inr t"
  then show "t = Infinity \<and> total_line t = ''\<newline>**Estimated Total: $inf**''
         \<or> t \<noteq> Infinity
           \<and> (\<exists>ds d1 d2.
                 total_line t = ''\<newline>**Estimated Total: $'' @ ds @ ''.'' @ [d1, d2] @ ''**''
                 \<and> ds \<noteq> [] \<and> list_all is_digit ds \<and> is_digit d1 \<and> is_digit d2)"
    by (rule total_line_shape)
next
  show "spec_total [''$199.99'', ''Not Found'', ''1,299.00''] = py_float ''1498.99''"
    by code_simp
next
  show "map_sum id total_line (spec_total [''$199.99'', ''Not Found'', ''1,299.00''])
       = Inr ''\<newline>**Estimated Total: $1498.99**''"
    by code_simp
qed

theorem estimated_total_witness:
  "spec_total (map price
      [\<lparr>name = ''A'', price = ''$199.99'', link = ''#'', image_field = '''', type = ''CPU''\<rparr>,
       \<lparr>name = ''B'', price = ''Not Found'', link = ''#'', image_field = '''', type = ''GPU''\<rparr>,
       \<lparr>name = ''C'', price = ''1,299.00'', link = ''#'', image_field = '''', type = ''RAM''\<rparr>])
     = Inr (Finite (6592627739679785 / 4398046511104))
   \<and> format_results_as_markdown budget_office
      [\<lparr>name = ''A'', price = ''$199.99'', link = ''#'', image_field = '''', type = ''CPU''\<rparr>,
       \<lparr>name = ''B'', price = ''Not Found'', link = ''#'', image_field = '''', type = ''GPU''\<rparr>,
       \<lparr>name = ''C'', price = ''1,299.00'', link = ''#'', image_field = '''', type = ''RAM''\<rparr>]
     = Inr (''### Your Recommended Budget Office/Web Browse Build\<newline>\<newline>''
            @ ''| Component | Part | Price | Image |\<newline>''
            @ ''|---|---|---|---|\<newline>''
            @ ''| **CPU** | [A](#) | $199.99 | ![A]() |\<newline>''
            @ ''| **GPU** | [B](#) | Not Found | ![B]() |\<newline>''
            @ ''| **RAM** | [C](#) | 1,299.00 | ![C]() |\<newline>''
            @ ''\<newline>**Estimated Total: $1498.99**''
            @ ''\<newline>\<newline>*Prices are estimates from live search results and may vary. Links will open in a new tab.*'')"
proof -
  let ?ps = "[\<lparr>name = ''A'', price = ''$199.99'', link = ''#'', image_field = '''', type = ''CPU''\<rparr>,
       \<lparr>name = ''B'', price = ''Not Found'', link = ''#'', image_field = '''', type = ''GPU''\<rparr>,
       \<lparr>name = ''C'', price = ''1,299.00'', link = ''#'', image_field = '''', type = ''RAM''\<rparr>]"
  have t: "spec_total (map price ?ps) = Inr (Finite (6592627739679785 / 4398046511104))"
    by code_simp
  have l: "total_line (Finite (6592627739679785 / 4398046511104))
      = ''\<newline>**Estimated Total: $1498.99**''"
    by code_simp
  from t l estimated_total [of budget_office ?ps]
  show ?thesis
    by (simp add: table_header_def table_row_def disclaimer_def budget_office_def)
qed

text \<open>
  Claim C4 as worded (the total always has two decimals) fails on a price of 309 digits:
  its value exceeds every double, the total is infinite, and the total line reads \<open>$inf\<close>.
\<close>

theorem total_inf_counterexample:
  "format_results_as_markdown budget_office
     [\<lparr>name = ''AMD Ryzen 5 5600G'', price = CHR ''2'' # replicate 308 (CHR ''0''),
       link = ''#'', image_field = '''', type = ''CPU''\<rparr>]
   = Inr (table_header budget_office
          @ table_row \<lparr>name = ''AMD Ryzen 5 5600G'', price = CHR ''2'' # replicate 308 (CHR ''0''),
              link = ''#'', image_field = '''', type = ''CPU''\<rparr>
          @ ''\<newline>**Estimated Total: $inf**'' @ disclaimer)"
proof -
  define s where "s = CHR ''2'' # replicate 308 (CHR ''0'')"
  have d: "list_all is_digit s" unfolding s_def by code_simp
  have ne: "s \<noteq> []" by (simp add: s_def)
  have v: "digits_val s = 2 * 10 ^ 308" unfolding s_def by code_simp
  have "2 powi 1024 \<le> (of_int (digits_val s) :: rat)" by (simp add: v)
  with d ne have f: "py_float s = Inr Infinity" by (rule py_float_overflow)
  from d have st: "strip_non_numeric s = s"
    by (simp add: strip_non_numeric_def list_all_iff)
  have "format_results_as_markdown budget_office
     [\<lparr>name = ''AMD Ryzen 5 5600G'', price = s, link = ''#'', image_field = '''', type = ''CPU''\<rparr>]
   = Inr (table_header budget_office
          @ table_row \<lparr>name = ''AMD Ryzen 5 5600G'', price = s,
              link = ''#'', image_field = '''', type = ''CPU''\<rparr>
          @ ''\<newline>**Estimated Total: $inf**'' @ disclaimer)"
    by (simp add: format_results_as_markdown_def st ne f float_add_def total_line_def format_2f_def)
  then show ?thesis by (simp only: s_def)
qed

text \<open>
  Claim C2 does not hold of the code.  A price whose digits and points do not form a
  decimal literal (here a price range, which strips to \<open>19.9929.99\<close>) makes \<open>float\<close>
  raise \<open>ValueError\<close>, and the assembler returns no report, whatever the build and the
  other fields of the listing.  \<open>report_aborts_iff\<close> says for which listings this happens.
\<close>

theorem malformed_price_aborts:
  "format_results_as_markdown b
     [\<lparr>name = n, price = ''$19.99 - $29.99'', link = l, image_field = i, type = t\<rparr>]
   = Inl (ValueError ''19.9929.99'')"
  by (simp add: format_results_as_markdown_def strip_non_numeric_def is_digit_def py_float_def)

section \<open>Intent extraction: the template and the fallback\<close>

lemma llama_chain_raises:
  "chain_invoke (env\<lparr>prompt := llama_template\<rparr>)
     [(''system_prompt'', a), (''format_prompt'', b), (''user_prompt'', c)]
   = (Inl (KeyError ''chat_history''), [])"
  by (simp add: chain_invoke_def prompt_invoke_def llama_template_def)

lemma analyze_user_needs_cases:
  "analyze_user_needs env s =
    (case fst (chain_invoke env (chain_input env s)) of
       Inl e \<Rightarrow> \<lparr>budget = 0, use_case = ''unknown'', has_confirmed = False\<rparr>
     | Inr n \<Rightarrow> n,
     Extract_call s # snd (chain_invoke env (chain_input env s)))"
  by (simp add: analyze_user_needs_def split: prod.splits sum.splits)

text \<open>
  Claim C3.  With the module's template, which declares the input variable
  \<open>chat_history\<close>, and the input dictionary of \<open>analyze_user_needs\<close>, which holds the key
  \<open>user_prompt\<close> instead, the chain raises \<open>KeyError\<close> before the language model is
  reached, whatever the transcript and whatever the other collaborators are.  So
  \<open>analyze_user_needs\<close> returns the all-sentinel record for every transcript, and
  \<open>get_assistant_response\<close> answers every non-empty history with the ask-budget prompt.
\<close>

theorem llama_template_always_fails:
  "chain_invoke (env\<lparr>prompt := llama_template\<rparr>) (chain_input env s)
     = (Inl (KeyError ''chat_history''), [])
   \<and> analyze_user_needs (env\<lparr>prompt := llama_template\<rparr>) s
     = (\<lparr>budget = 0, use_case = ''unknown'', has_confirmed = False\<rparr>, [Extract_call s])
   \<and> (chat_history \<noteq> [] \<longrightarrow>
        get_assistant_response (env\<lparr>prompt := llama_template\<rparr>) user_message chat_history
          = (Inr ask_budget, [Extract_call (history_str chat_history user_message)]))"
  by (simp add: analyze_user_needs_def get_assistant_response_def llama_chain_raises)

theorem llama_template_always_fails_witness:
  "[(''I need a gaming PC for $2000'', ask_confirm \<lparr>budget = 2000, use_case = ''gaming'', has_confirmed = False\<rparr>)] \<noteq> []
   \<and> get_assistant_response
        ((stub_env user_prompt_template (Inr ''{}'')
            (Inr \<lparr>budget = 2000, use_case = ''gaming'', has_confirmed = True\<rparr>) ''$10.00'')
         \<lparr>prompt := llama_template\<rparr>)
        ''yes''
        [(''I need a gaming PC for $2000'', ask_confirm \<lparr>budget = 2000, use_case = ''gaming'', has_confirmed = False\<rparr>)]
      = (Inr ask_budget,
         [Extract_call
            (history_str
               [(''I need a gaming PC for $2000'', ask_confirm \<lparr>budget = 2000, use_case = ''gaming'', has_confirmed = False\<rparr>)]
               ''yes'')])"
  using llama_template_always_fails
    [of "stub_env user_prompt_template (Inr ''{}'')
            (Inr \<lparr>budget = 2000, use_case = ''gaming'', has_confirmed = True\<rparr>) ''$10.00''"
        "''''"
        "[(''I need a gaming PC for $2000'', ask_confirm \<lparr>budget = 2000, use_case = ''gaming'', has_confirmed = False\<rparr>)]"
        "''yes''"]
  by simp

text \<open>
  Claim C7.  Whenever the extraction chain raises, whatever the exception and whichever
  step raised it, \<open>analyze_user_needs\<close> returns the all-sentinel record (budget 0, use case
  \<open>unknown\<close>, not confirmed) and no exception; the turn then answers with the ask-budget
  prompt, having made no call beyond the extraction and those of its chain.
\<close>

theorem extraction_failure_sentinel:
  "(fst (chain_invoke env (chain_input env s)) = Inl e \<longrightarrow>
      analyze_user_needs env s
        = (\<lparr>budget = 0, use_case = ''unknown'', has_confirmed = False\<rparr>,
           Extract_call s # snd (chain_invoke env (chain_input env s))))
   \<and> (chat_history \<noteq> []
        \<and> fst (chain_invoke env (chain_input env (history_str chat_history user_message)))
            = Inl e \<longrightarrow>
      get_assistant_response env user_message chat_history
        = (Inr ask_budget,
           Extract_call (history_str chat_history user_message)
           # snd (chain_invoke env (chain_input env (history_str chat_history user_message)))))"
  by (simp add: analyze_user_needs_cases get_assistant_response_def)

theorem extraction_failure_sentinel_witness:
  "fst (chain_invoke
          (stub_env user_prompt_template (Inl (ServiceError ''timeout''))
             (Inr \<lparr>budget = 2000, use_case = ''gaming'', has_confirmed = True\<rparr>) ''$10.00'')
          (chain_input
             (stub_env user_prompt_template (Inl (ServiceError ''timeout''))
                (Inr \<lparr>budget = 2000, use_case = ''gaming'', has_confirmed = True\<rparr>) ''$10.00'')
             (history_str [(''hi'', ''hello'')] ''yes'')))
     = Inl (ServiceError ''timeout'')
   \<and> get_assistant_response
        (stub_env user_prompt_template (Inl (ServiceError ''timeout''))
           (Inr \<lparr>budget = 2000, use_case = ''gaming'', has_confirmed = True\<rparr>) ''$10.00'')
        ''yes'' [(''hi'', ''hello'')]
     = (Inr ask_budget,
        [Extract_call ''User: hi\<newline>Assistant: hello\<newline>User: yes'',
         LLM_call ''User: hi\<newline>Assistant: hello\<newline>User: yes''])
   \<and> fst (analyze_user_needs
          (stub_env user_prompt_template (Inr ''not json'') (Inl (ValueError ''not json'')) ''$10.00'')
          ''User: hi'')
     = \<lparr>budget = 0, use_case = ''unknown'', has_confirmed = False\<rparr>"
proof -
  let ?e1 = "stub_env user_prompt_template (Inl (ServiceError ''timeout''))
             (Inr \<lparr>budget = 2000, use_case = ''gaming'', has_confirmed = True\<rparr>) ''$10.00''"
  let ?e2 = "stub_env user_prompt_template (Inr ''not json'') (Inl (ValueError ''not json'')) ''$10.00''"
  have c1: "chain_invoke ?e1 (chain_input ?e1 (history_str [(''hi'', ''hello'')] ''yes''))
      = (Inl (ServiceError ''timeout''), [LLM_call ''User: hi\<newline>Assistant: hello\<newline>User: yes''])"
    by (simp add: chain_invoke_def prompt_invoke_def stub_env_def user_prompt_template_def
        history_str_def)
  have c2: "chain_invoke ?e2 (chain_input ?e2 ''User: hi'')
      = (Inl (ValueError ''not json''), [LLM_call ''User: hi''])"
    by (simp add: chain_invoke_def prompt_invoke_def stub_env_def user_prompt_template_def)
  from c1 c2
    extraction_failure_sentinel [of ?e1 "history_str [(''hi'', ''hello'')] ''yes''"
      "ServiceError ''timeout''" "[(''hi'', ''hello'')]" "''yes''"]
    extraction_failure_sentinel [of ?e2 "''User: hi''" "ValueError ''not json''" "[]" "''''"]
  show ?thesis by (simp add: history_str_def)
qed

section \<open>Turn Orchestrator: what a turn returns\<close>

text \<open>
  Claim C9.  With an empty history the orchestrator answers every user message with the
  fixed greeting and makes no call to a collaborator: the intent extraction is not
  entered, and neither the language model nor the search service is reached.
\<close>

theorem empty_history_greeting:
  "get_assistant_response env user_message [] = (Inr greeting, [])"
  by (simp add: get_assistant_response_def)

lemma search_calls:
  "snd (search_amazon_for_component env n) = [Search_call (''amazon.com '' @ n)]"
  by (simp add: search_amazon_for_component_def Let_def)

lemma lookup_loop_eq:
  "lookup_loop env items acc calls =
    (acc @ map (\<lambda>(t, n). search_result.extend (fst (search_amazon_for_component env n))
                         \<lparr>type = t\<rparr>) items,
     calls @ map (\<lambda>(t, n). Search_call (''amazon.com '' @ n)) items)"
proof (induction items arbitrary: acc calls)
  case Nil
  show ?case by simp
next
  case (Cons item items)
  obtain t n where item: "item = (t, n)" by (cases item)
  obtain r made where s: "search_amazon_for_component env n = (r, made)"
    by (cases "search_amazon_for_component env n")
  with search_calls [of env n] have made: "made = [Search_call (''amazon.com '' @ n)]" by simp
  show ?case by (simp add: item s made Cons.IH)
qed

lemma parts_nonempty:
  "parts budget_office \<noteq> []" "parts mid_range_gaming \<noteq> []"
  "parts high_end_gaming \<noteq> []" "parts professional_workstation \<noteq> []"
  by (simp_all add: budget_office_def mid_range_gaming_def high_end_gaming_def
      professional_workstation_def)

lemma selected_parts_nonempty:
  "select_build_tier b uc = Inr t \<Longrightarrow> parts t \<noteq> []"
  using parts_nonempty by (auto simp: select_build_tier_cases split: if_splits)

lemma select_build_tier_returns: "\<exists>t. select_build_tier b uc = Inr t"
  by (simp add: select_build_tier_cases)

lemma lookup_loop_nonempty:
  assumes "lookup_loop env items [] calls = (ps, calls')" and "items \<noteq> []"
  shows "ps \<noteq> []"
  using assms by (auto simp: lookup_loop_eq)

lemma build_path:
  assumes "chat_history \<noteq> []"
    and "analyze_user_needs env (history_str chat_history user_message) = (n, calls)"
    and "budget n \<noteq> 0" and "use_case n \<noteq> ''unknown''" and "has_confirmed n"
    and "select_build_tier (budget n) (use_case n) = Inr b"
  shows "get_assistant_response env user_message chat_history =
     (format_results_as_markdown b
        (map (\<lambda>(t, nm). search_result.extend (fst (search_amazon_for_component env nm))
                           \<lparr>type = t\<rparr>) (parts b)),
      calls @ map (\<lambda>(t, nm). Search_call (''amazon.com '' @ nm)) (parts b))"
proof -
  from assms(6) have "parts b \<noteq> []" by (rule selected_parts_nonempty)
  with assms show ?thesis
    by (simp add: get_assistant_response_def lookup_loop_eq)
qed

lemma report_is_not_failure_message:
  "format_results_as_markdown b ps \<noteq> Inr failure_message"
  by (auto simp: report_refines table_header_def failure_message_def split: sum.splits)

text \<open>
  Claim C1.  For every Needs Record that the extraction returns on a non-empty history,
  the orchestrator takes exactly one of four actions, the first that matches: budget 0
  gives the ask-budget prompt whatever the use case and the confirmation flag; else use
  case \<open>unknown\<close> gives the ask-use-case prompt, which contains the budget; else an
  unconfirmed record gives the ask-confirm prompt, which contains the budget and the use
  case; else the build proceeds: a tier is selected, its parts are looked up, and the
  response is what the Report Assembler makes of them.  In the first three actions no
  lookup is made.
\<close>

theorem resolver_priority:
  "chat_history \<noteq> []
   \<and> analyze_user_needs env (history_str chat_history user_message) = (n, calls) \<longrightarrow>
     (budget n = 0 \<longrightarrow>
        get_assistant_response env user_message chat_history = (Inr ask_budget, calls))
   \<and> (budget n \<noteq> 0 \<and> use_case n = ''unknown'' \<longrightarrow>
        get_assistant_response env user_message chat_history = (Inr (ask_use_case n), calls)
        \<and> contains (str_int (budget n)) (ask_use_case n))
   \<and> (budget n \<noteq> 0 \<and> use_case n \<noteq> ''unknown'' \<and> \<not> has_confirmed n \<longrightarrow>
        get_assistant_response env user_message chat_history = (Inr (ask_confirm n), calls)
        \<and> contains (str_int (budget n)) (ask_confirm n)
        \<and> contains (use_case n) (ask_confirm n))
   \<and> (budget n \<noteq> 0 \<and> use_case n \<noteq> ''unknown'' \<and> has_confirmed n \<longrightarrow>
        (\<exists>b ps calls'.
           select_build_tier (budget n) (use_case n) = Inr b
           \<and> lookup_loop env (parts b) [] calls = (ps, calls')
           \<and> get_assistant_response env user_message chat_history
               = (format_results_as_markdown b ps, calls')))"
proof (intro impI, elim conjE)
  assume h: "chat_history \<noteq> []"
    and a: "analyze_user_needs env (history_str chat_history user_message) = (n, calls)"
  have echo1: "contains (str_int (budget n)) (ask_use_case n)"
    unfolding ask_use_case_def contains_iff by blast
  have echo2: "contains (str_int (budget n)) (ask_confirm n)"
    unfolding ask_confirm_def contains_iff by (metis append.assoc)
  have echo3: "contains (use_case n) (ask_confirm n)"
    unfolding ask_confirm_def contains_iff by (metis append.assoc)
  have build: "\<exists>b ps calls'.
           select_build_tier (budget n) (use_case n) = Inr b
           \<and> lookup_loop env (parts b) [] calls = (ps, calls')
           \<and> get_assistant_response env user_message chat_history
               = (format_results_as_markdown b ps, calls')"
    if c: "budget n \<noteq> 0" "use_case n \<noteq> ''unknown''" "has_confirmed n"
  proof -
    obtain b where b: "select_build_tier (budget n) (use_case n) = Inr b"
      using select_build_tier_returns by blast
    obtain ps calls' where l: "lookup_loop env (parts b) [] calls = (ps, calls')"
      by (cases "lookup_loop env (parts b) [] calls")
    have "ps \<noteq> []"
      using l selected_parts_nonempty [OF b] by (rule lookup_loop_nonempty)
    then have "get_assistant_response env user_message chat_history
               = (format_results_as_markdown b ps, calls')"
      using h a c b l by (simp add: get_assistant_response_def)
    with b l show ?thesis by blast
  qed
  show "(budget n = 0 \<longrightarrow>
        get_assistant_response env user_message chat_history = (Inr ask_budget, calls))
   \<and> (budget n \<noteq> 0 \<and> use_case n = ''unknown'' \<longrightarrow>
        get_assistant_response env user_message chat_history = (Inr (ask_use_case n), calls)
        \<and> contains (str_int (budget n)) (ask_use_case n))
   \<and> (budget n \<noteq> 0 \<and> use_case n \<noteq> ''unknown'' \<and> \<not> has_confirmed n \<longrightarrow>
        get_assistant_response env user_message chat_history = (Inr (ask_confirm n), calls)
        \<and> contains (str_int (budget n)) (ask_confirm n)
        \<and> contains (use_case n) (ask_confirm n))
   \<and> (budget n \<noteq> 0 \<and> use_case n \<noteq> ''unknown'' \<and> has_confirmed n \<longrightarrow>
        (\<exists>b ps calls'.
           select_build_tier (budget n) (use_case n) = Inr b
           \<and> lookup_loop env (parts b) [] calls = (ps, calls')
           \<and> get_assistant_response env user_message chat_history
               = (format_results_as_markdown b ps, calls')))"
    using h a echo1 echo2 echo3 build by (simp add: get_assistant_response_def)
qed

lemma stub_analysis:
  "analyze_user_needs (stub_env user_prompt_template (Inr a) (Inr n) p)
     (history_str [(''hi'', ''hello'')] ''yes'')
   = (n, [Extract_call ''User: hi\<newline>Assistant: hello\<newline>User: yes'',
          LLM_call ''User: hi\<newline>Assistant: hello\<newline>User: yes''])"
  by (simp add: analyze_user_needs_def chain_invoke_def prompt_invoke_def stub_env_def
      user_prompt_template_def history_str_def)

theorem resolver_priority_witness:
  "get_assistant_response
      (stub_env user_prompt_template (Inr ''{}'')
         (Inr \<lparr>budget = 0, use_case = ''gaming'', has_confirmed = True\<rparr>) ''$10.00'')
      ''yes'' [(''hi'', ''hello'')]
     = (Inr ask_budget, [Extract_call ''User: hi\<newline>Assistant: hello\<newline>User: yes'',
         LLM_call ''User: hi\<newline>Assistant: hello\<newline>User: yes''])
   \<and> get_assistant_response
      (stub_env user_prompt_template (Inr ''{}'')
         (Inr \<lparr>budget = 1500, use_case = ''unknown'', has_confirmed = True\<rparr>) ''$10.00'')
      ''yes'' [(''hi'', ''hello'')]
     = (Inr (ask_use_case \<lparr>budget = 1500, use_case = ''unknown'', has_confirmed = True\<rparr>),
        [Extract_call ''User: hi\<newline>Assistant: hello\<newline>User: yes'',
         LLM_call ''User: hi\<newline>Assistant: hello\<newline>User: yes''])
   \<and> get_assistant_response
      (stub_env user_prompt_template (Inr ''{}'')
         (Inr \<lparr>budget = 1500, use_case = ''office'', has_confirmed = False\<rparr>) ''$10.00'')
      ''yes'' [(''hi'', ''hello'')]
     = (Inr (ask_confirm \<lparr>budget = 1500, use_case = ''office'', has_confirmed = False\<rparr>),
        [Extract_call ''User: hi\<newline>Assistant: hello\<newline>User: yes'',
         LLM_call ''User: hi\<newline>Assistant: hello\<newline>User: yes''])
   \<and> (\<exists>b ps calls'.
         select_build_tier 2000 ''gaming'' = Inr b
         \<and> lookup_loop
              (stub_env user_prompt_template (Inr ''{}'')
                 (Inr \<lparr>budget = 2000, use_case = ''gaming'', has_confirmed = True\<rparr>) ''$10.00'')
              (parts b) [] [Extract_call ''User: hi\<newline>Assistant: hello\<newline>User: yes'',
         LLM_call ''User: hi\<newline>Assistant: hello\<newline>User: yes'']
             = (ps, calls')
         \<and> get_assistant_response
              (stub_env user_prompt_template (Inr ''{}'')
                 (Inr \<lparr>budget = 2000, use_case = ''gaming'', has_confirmed = True\<rparr>) ''$10.00'')
              ''yes'' [(''hi'', ''hello'')]
             = (format_results_as_markdown b ps, calls'))"
proof -
  let ?c = "[Extract_call ''User: hi\<newline>Assistant: hello\<newline>User: yes'',
         LLM_call ''User: hi\<newline>Assistant: hello\<newline>User: yes'']"
  let ?h = "[(''hi'', ''hello'')]"
  let ?n1 = "\<lparr>budget = 0, use_case = ''gaming'', has_confirmed = True\<rparr>"
  let ?n2 = "\<lparr>budget = 1500, use_case = ''unknown'', has_confirmed = True\<rparr>"
  let ?n3 = "\<lparr>budget = 1500, use_case = ''office'', has_confirmed = False\<rparr>"
  let ?n4 = "\<lparr>budget = 2000, use_case = ''gaming'', has_confirmed = True\<rparr>"
  have h: "?h \<noteq> []" by simp
  note a = stub_analysis [of "''{}''" _ "''$10.00''"]
  from h a [of ?n1]
    resolver_priority [of ?h "stub_env user_prompt_template (Inr ''{}'') (Inr ?n1) ''$10.00''"
      "''yes''" ?n1 ?c]
  have 1: "get_assistant_response
      (stub_env user_prompt_template (Inr ''{}'') (Inr ?n1) ''$10.00'') ''yes'' ?h
     = (Inr ask_budget, ?c)"
    by simp
  from h a [of ?n2]
    resolver_priority [of ?h "stub_env user_prompt_template (Inr ''{}'') (Inr ?n2) ''$10.00''"
      "''yes''" ?n2 ?c]
  have 2: "get_assistant_response
      (stub_env user_prompt_template (Inr ''{}'') (Inr ?n2) ''$10.00'') ''yes'' ?h
     = (Inr (ask_use_case ?n2), ?c)"
    by simp
  from h a [of ?n3]
    resolver_priority [of ?h "stub_env user_prompt_template (Inr ''{}'') (Inr ?n3) ''$10.00''"
      "''yes''" ?n3 ?c]
  have 3: "get_assistant_response
      (stub_env user_prompt_template (Inr ''{}'') (Inr ?n3) ''$10.00'') ''yes'' ?h
     = (Inr (ask_confirm ?n3), ?c)"
    by simp
  from h a [of ?n4]
    resolver_priority [of ?h "stub_env user_prompt_template (Inr ''{}'') (Inr ?n4) ''$10.00''"
      "''yes''" ?n4 ?c]
  have 4: "\<exists>b ps calls'.
         select_build_tier 2000 ''gaming'' = Inr b
         \<and> lookup_loop (stub_env user_prompt_template (Inr ''{}'') (Inr ?n4) ''$10.00'')
              (parts b) [] ?c = (ps, calls')
         \<and> get_assistant_response
              (stub_env user_prompt_template (Inr ''{}'') (Inr ?n4) ''$10.00'') ''yes'' ?h
             = (format_results_as_markdown b ps, calls')"
    by simp
  from 1 2 3 4 show ?thesis by blast
qed

lemma report_returned_iff:
  "(\<exists>report. format_results_as_markdown b ps = Inr report)
     \<longleftrightarrow> list_all (\<lambda>p. price_parses (price p)) ps"
proof -
  have "(\<exists>report. format_results_as_markdown b ps = Inr report)
      \<longleftrightarrow> \<not> (\<exists>e. format_results_as_markdown b ps = Inl e)"
    by (cases "format_results_as_markdown b ps") simp_all
  then show ?thesis
    by (auto simp: report_aborts_iff price_parses_def Let_def list_all_iff)
qed

lemma report_shape:
  assumes "format_results_as_markdown b ps = Inr report"
  shows "\<exists>t. report = table_header b @ concat (map table_row ps)
                 @ ''\<newline>**Estimated Total: $'' @ format_2f t @ ''**'' @ disclaimer"
  using assms by (auto simp: report_refines total_line_def split: sum.splits)

lemma extraction_calls:
  assumes "analyze_user_needs env s = (n, calls)"
  shows "calls = [Extract_call s] \<or> (\<exists>p. calls = [Extract_call s, LLM_call p])"
  using assms
  by (auto simp: analyze_user_needs_def chain_invoke_def split: sum.splits prod.splits)

lemma search_returns_listing:
  "fst (search_amazon_for_component env nm)
     = \<lparr>name = nm, price = ''Not Found'', link = ''#'', image_field = []\<rparr>
   \<or> (\<exists>product rest.
         shopping_results env (''amazon.com '' @ nm) = Some (product # rest)
         \<and> fst (search_amazon_for_component env nm)
            = \<lparr>name = get_default product ''title'' nm,
               price = get_default product ''price'' ''N/A'',
               link = get_default product ''link'' ''#'',
               image_field = get_default product ''thumbnail'' []\<rparr>)"
  by (auto simp: search_amazon_for_component_def Let_def split: option.splits list.splits)

lemma never_failure_message:
  "fst (get_assistant_response env user_message chat_history) \<noteq> Inr failure_message"
proof (cases "chat_history = []")
  case True
  then show ?thesis
    by (simp add: get_assistant_response_def greeting_def failure_message_def)
next
  case False
  obtain n calls where a: "analyze_user_needs env (history_str chat_history user_message) = (n, calls)"
    by (cases "analyze_user_needs env (history_str chat_history user_message)")
  obtain b where b: "select_build_tier (budget n) (use_case n) = Inr b"
    using select_build_tier_returns by blast
  obtain ps calls' where l: "lookup_loop env (parts b) [] calls = (ps, calls')"
    by (cases "lookup_loop env (parts b) [] calls")
  have ne: "ps \<noteq> []" using l selected_parts_nonempty [OF b] by (rule lookup_loop_nonempty)
  have 1: "ask_budget \<noteq> failure_message" by (simp add: ask_budget_def failure_message_def)
  have 2: "ask_use_case n \<noteq> failure_message" by (simp add: ask_use_case_def failure_message_def)
  have 3: "ask_confirm n \<noteq> failure_message" by (simp add: ask_confirm_def failure_message_def)
  from False a b l ne 1 2 3 report_is_not_failure_message [of b ps] show ?thesis
    by (simp add: get_assistant_response_def)
qed

lemma high_end_types:
  "map type (map (\<lambda>(t, nm). search_result.extend
                                   (fst (search_amazon_for_component env nm)) \<lparr>type = t\<rparr>)
                     (parts high_end_gaming))
              = [''CPU'', ''GPU'', ''Motherboard'', ''RAM'', ''Storage'', ''CPU Cooler'',
                 ''PSU'', ''Case'']"
  by (simp add: high_end_gaming_def search_result.extend_def)

lemma high_end_queries:
  "map (\<lambda>(t, nm). Search_call (''amazon.com '' @ nm)) (parts high_end_gaming)
   = [Search_call ''amazon.com AMD Ryzen 7 7800X3D'',
                  Search_call ''amazon.com NVIDIA GeForce RTX 4070 Super'',
                  Search_call ''amazon.com MSI MAG B650 Tomahawk WiFi'',
                  Search_call ''amazon.com G.Skill Trident Z5 Neo 32GB DDR5 6000MHz CL30'',
                  Search_call ''amazon.com Western Digital Black SN850X 2TB NVMe SSD'',
                  Search_call ''amazon.com Thermalright Phantom Spirit 120 SE'',
                  Search_call ''amazon.com SeaSonic FOCUS Plus Gold 850W'',
                  Search_call ''amazon.com Fractal Design Pop Air'']"
  by (simp add: high_end_gaming_def)

text \<open>
  Claim C8.  Whenever the extraction returns the confirmed record of budget 2000 and use
  case \<open>gaming\<close> on a non-empty history, the orchestrator selects the high-end gaming
  tier and makes exactly eight lookups, one per category of that tier and in its order,
  none during the extraction and none twice.  It returns what the Report Assembler makes
  of the eight listings: a report whenever every looked-up price can be totalled, and every
  report so returned has the eight rows and the total line that starts
  \<open>Estimated Total: $\<close>.  What the assembler does with a price that cannot be totalled is
  the matter of claim C2 and is neither promised nor denied here.
\<close>

theorem high_end_turn:
  "chat_history \<noteq> []
   \<and> analyze_user_needs env (history_str chat_history user_message)
       = (\<lparr>budget = 2000, use_case = ''gaming'', has_confirmed = True\<rparr>, calls) \<longrightarrow>
     select_build_tier 2000 ''gaming'' = Inr high_end_gaming
     \<and> (\<forall>q. Search_call q \<notin> set calls)
     \<and> (\<exists>rows.
          rows = map (\<lambda>(t, nm). search_result.extend
                                   (fst (search_amazon_for_component env nm)) \<lparr>type = t\<rparr>)
                     (parts high_end_gaming)
          \<and> map type rows
              = [''CPU'', ''GPU'', ''Motherboard'', ''RAM'', ''Storage'', ''CPU Cooler'',
                 ''PSU'', ''Case'']
          \<and> get_assistant_response env user_message chat_history
              = (format_results_as_markdown high_end_gaming rows,
                 calls @
                 [Search_call ''amazon.com AMD Ryzen 7 7800X3D'',
                  Search_call ''amazon.com NVIDIA GeForce RTX 4070 Super'',
                  Search_call ''amazon.com MSI MAG B650 Tomahawk WiFi'',
                  Search_call ''amazon.com G.Skill Trident Z5 Neo 32GB DDR5 6000MHz CL30'',
                  Search_call ''amazon.com Western Digital Black SN850X 2TB NVMe SSD'',
                  Search_call ''amazon.com Thermalright Phantom Spirit 120 SE'',
                  Search_call ''amazon.com SeaSonic FOCUS Plus Gold 850W'',
                  Search_call ''amazon.com Fractal Design Pop Air''])
          \<and> (list_all (\<lambda>p. price_parses (price p)) rows \<longrightarrow>
                (\<exists>report. format_results_as_markdown high_end_gaming rows = Inr report))
          \<and> (\<forall>report. format_results_as_markdown high_end_gaming rows = Inr report \<longrightarrow>
                length (map table_row rows) = 8
                \<and> (\<exists>t. report = table_header high_end_gaming @ concat (map table_row rows)
                          @ ''\<newline>**Estimated Total: $'' @ format_2f t @ ''**''
                          @ disclaimer)))"
proof (intro impI, elim conjE)
  assume h: "chat_history \<noteq> []"
    and a: "analyze_user_needs env (history_str chat_history user_message)
       = (\<lparr>budget = 2000, use_case = ''gaming'', has_confirmed = True\<rparr>, calls)"
  let ?rows = "map (\<lambda>(t, nm). search_result.extend
                                   (fst (search_amazon_for_component env nm)) \<lparr>type = t\<rparr>)
                     (parts high_end_gaming)"
  have sel: "select_build_tier 2000 ''gaming'' = Inr high_end_gaming"
    by (simp add: select_build_tier_cases)
  from extraction_calls [OF a] have nos: "\<forall>q. Search_call q \<notin> set calls" by auto
  have "get_assistant_response env user_message chat_history
      = (format_results_as_markdown high_end_gaming ?rows,
         calls @ map (\<lambda>(t, nm). Search_call (''amazon.com '' @ nm)) (parts high_end_gaming))"
    by (rule build_path [OF h a]) (simp_all add: sel)
  then have r: "get_assistant_response env user_message chat_history
              = (format_results_as_markdown high_end_gaming ?rows,
                 calls @
                 [Search_call ''amazon.com AMD Ryzen 7 7800X3D'',
                  Search_call ''amazon.com NVIDIA GeForce RTX 4070 Super'',
                  Search_call ''amazon.com MSI MAG B650 Tomahawk WiFi'',
                  Search_call ''amazon.com G.Skill Trident Z5 Neo 32GB DDR5 6000MHz CL30'',
                  Search_call ''amazon.com Western Digital Black SN850X 2TB NVMe SSD'',
                  Search_call ''amazon.com Thermalright Phantom Spirit 120 SE'',
                  Search_call ''amazon.com SeaSonic FOCUS Plus Gold 850W'',
                  Search_call ''amazon.com Fractal Design Pop Air''])"
    by (simp only: high_end_queries)
  have ok: "list_all (\<lambda>p. price_parses (price p)) ?rows \<longrightarrow>
                (\<exists>report. format_results_as_markdown high_end_gaming ?rows = Inr report)"
    by (simp only: report_returned_iff) simp
  have len: "length (map table_row ?rows) = 8" by (simp add: high_end_gaming_def)
  have shape: "\<forall>report. format_results_as_markdown high_end_gaming ?rows = Inr report \<longrightarrow>
                length (map table_row ?rows) = 8
                \<and> (\<exists>t. report = table_header high_end_gaming @ concat (map table_row ?rows)
                          @ ''\<newline>**Estimated Total: $'' @ format_2f t @ ''**''
                          @ disclaimer)"
  proof (intro allI impI conjI)
    show "length (map table_row ?rows) = 8" by (rule len)
  next
    fix report
    assume "format_results_as_markdown high_end_gaming ?rows = Inr report"
    then show "\<exists>t. report = table_header high_end_gaming @ concat (map table_row ?rows)
                          @ ''\<newline>**Estimated Total: $'' @ format_2f t @ ''**''
                          @ disclaimer"
      by (rule report_shape)
  qed
  show "select_build_tier 2000 ''gaming'' = Inr high_end_gaming
     \<and> (\<forall>q. Search_call q \<notin> set calls)
     \<and> (\<exists>rows.
          rows = map (\<lambda>(t, nm). search_result.extend
                                   (fst (search_amazon_for_component env nm)) \<lparr>type = t\<rparr>)
                     (parts high_end_gaming)
          \<and> map type rows
              = [''CPU'', ''GPU'', ''Motherboard'', ''RAM'', ''Storage'', ''CPU Cooler'',
                 ''PSU'', ''Case'']
          \<and> get_assistant_response env user_message chat_history
              = (format_results_as_markdown high_end_gaming rows,
                 calls @
                 [Search_call ''amazon.com AMD Ryzen 7 7800X3D'',
                  Search_call ''amazon.com NVIDIA GeForce RTX 4070 Super'',
                  Search_call ''amazon.com MSI MAG B650 Tomahawk WiFi'',
                  Search_call ''amazon.com G.Skill Trident Z5 Neo 32GB DDR5 6000MHz CL30'',
                  Search_call ''amazon.com Western Digital Black SN850X 2TB NVMe SSD'',
                  Search_call ''amazon.com Thermalright Phantom Spirit 120 SE'',
                  Search_call ''amazon.com SeaSonic FOCUS Plus Gold 850W'',
                  Search_call ''amazon.com Fractal Design Pop Air''])
          \<and> (list_all (\<lambda>p. price_parses (price p)) rows \<longrightarrow>
                (\<exists>report. format_results_as_markdown high_end_gaming rows = Inr report))
          \<and> (\<forall>report. format_results_as_markdown high_end_gaming rows = Inr report \<longrightarrow>
                length (map table_row rows) = 8
                \<and> (\<exists>t. report = table_header high_end_gaming @ concat (map table_row rows)
                          @ ''\<newline>**Estimated Total: $'' @ format_2f t @ ''**''
                          @ disclaimer)))"
  proof (intro conjI)
    show "select_build_tier 2000 ''gaming'' = Inr high_end_gaming" by (rule sel)
  next
    show "\<forall>q. Search_call q \<notin> set calls" by (rule nos)
  next
    show "\<exists>rows.
          rows = map (\<lambda>(t, nm). search_result.extend
                                   (fst (search_amazon_for_component env nm)) \<lparr>type = t\<rparr>)
                     (parts high_end_gaming)
          \<and> map type rows
              = [''CPU'', ''GPU'', ''Motherboard'', ''RAM'', ''Storage'', ''CPU Cooler'',
                 ''PSU'', ''Case'']
          \<and> get_assistant_response env user_message chat_history
              = (format_results_as_markdown high_end_gaming rows,
                 calls @
                 [Search_call ''amazon.com AMD Ryzen 7 7800X3D'',
                  Search_call ''amazon.com NVIDIA GeForce RTX 4070 Super'',
                  Search_call ''amazon.com MSI MAG B650 Tomahawk WiFi'',
                  Search_call ''amazon.com G.Skill Trident Z5 Neo 32GB DDR5 6000MHz CL30'',
                  Search_call ''amazon.com Western Digital Black SN850X 2TB NVMe SSD'',
                  Search_call ''amazon.com Thermalright Phantom Spirit 120 SE'',
                  Search_call ''amazon.com SeaSonic FOCUS Plus Gold 850W'',
                  Search_call ''amazon.com Fractal Design Pop Air''])
          \<and> (list_all (\<lambda>p. price_parses (price p)) rows \<longrightarrow>
                (\<exists>report. format_results_as_markdown high_end_gaming rows = Inr report))
          \<and> (\<forall>report. format_results_as_markdown high_end_gaming rows = Inr report \<longrightarrow>
                length (map table_row rows) = 8
                \<and> (\<exists>t. report = table_header high_end_gaming @ concat (map table_row rows)
                          @ ''\<newline>**Estimated Total: $'' @ format_2f t @ ''**''
                          @ disclaimer))"
    proof (rule exI [of _ ?rows], intro conjI)
      show "?rows = ?rows" by (rule refl)
    next
      show "map type ?rows
              = [''CPU'', ''GPU'', ''Motherboard'', ''RAM'', ''Storage'', ''CPU Cooler'',
                 ''PSU'', ''Case'']"
        by (rule high_end_types)
    qed (rule r ok shape)+
  qed
qed

theorem high_end_turn_witness:
  "analyze_user_needs
      (stub_env user_prompt_template (Inr ''{}'')
         (Inr \<lparr>budget = 2000, use_case = ''gaming'', has_confirmed = True\<rparr>) ''$199.99'')
      (history_str [(''hi'', ''hello'')] ''yes'')
     = (\<lparr>budget = 2000, use_case = ''gaming'', has_confirmed = True\<rparr>,
        [Extract_call ''User: hi\<newline>Assistant: hello\<newline>User: yes'',
         LLM_call ''User: hi\<newline>Assistant: hello\<newline>User: yes''])
   \<and> list_all (\<lambda>p. price_parses (price p))
        (map (\<lambda>(t, nm). search_result.extend
                (fst (search_amazon_for_component
                   (stub_env user_prompt_template (Inr ''{}'')
                      (Inr \<lparr>budget = 2000, use_case = ''gaming'', has_confirmed = True\<rparr>)
                      ''$199.99'') nm)) \<lparr>type = t\<rparr>)
           (parts high_end_gaming))
   \<and> get_assistant_response
        (stub_env user_prompt_template (Inr ''{}'')
           (Inr \<lparr>budget = 2000, use_case = ''gaming'', has_confirmed = True\<rparr>) ''$199.99'')
        ''yes'' [(''hi'', ''hello'')]
     = (Inr (''### Your Recommended High-End Gaming/Streaming Build\<newline>\<newline>''
             @ ''| Component | Part | Price | Image |\<newline>''
             @ ''|---|---|---|---|\<newline>''
             @ ''| **CPU** | [amazon.com AMD Ryzen 7 7800X3D](#) | $199.99 | ![amazon.com AMD Ryzen 7 7800X3D]() |\<newline>''
             @ ''| **GPU** | [amazon.com NVIDIA GeForce RTX 4070 Super](#) | $199.99 | ![amazon.com NVIDIA GeForce RTX 4070 Super]() |\<newline>''
             @ ''| **Motherboard** | [amazon.com MSI MAG B650 Tomahawk WiFi](#) | $199.99 | ![amazon.com MSI MAG B650 Tomahawk WiFi]() |\<newline>''
             @ ''| **RAM** | [amazon.com G.Skill Trident Z5 Neo 32GB DDR5 6000MHz CL30](#) | $199.99 | ![amazon.com G.Skill Trident Z5 Neo 32GB DDR5 6000MHz CL30]() |\<newline>''
             @ ''| **Storage** | [amazon.com Western Digital Black SN850X 2TB NVMe SSD](#) | $199.99 | ![amazon.com Western Digital Black SN850X 2TB NVMe SSD]() |\<newline>''
             @ ''| **CPU Cooler** | [amazon.com Thermalright Phantom Spirit 120 SE](#) | $199.99 | ![amazon.com Thermalright Phantom Spirit 120 SE]() |\<newline>''
             @ ''| **PSU** | [amazon.com SeaSonic FOCUS Plus Gold 850W](#) | $199.99 | ![amazon.com SeaSonic FOCUS Plus Gold 850W]() |\<newline>''
             @ ''| **Case** | [amazon.com Fractal Design Pop Air](#) | $199.99 | ![amazon.com Fractal Design Pop Air]() |\<newline>''
             @ ''\<newline>**Estimated Total: $1599.92**''
             @ ''\<newline>\<newline>*Prices are estimates from live search results and may vary. Links will open in a new tab.*''),
        [Extract_call ''User: hi\<newline>Assistant: hello\<newline>User: yes'',
         LLM_call ''User: hi\<newline>Assistant: hello\<newline>User: yes'',
         Search_call ''amazon.com AMD Ryzen 7 7800X3D'',
         Search_call ''amazon.com NVIDIA GeForce RTX 4070 Super'',
         Search_call ''amazon.com MSI MAG B650 Tomahawk WiFi'',
         Search_call ''amazon.com G.Skill Trident Z5 Neo 32GB DDR5 6000MHz CL30'',
         Search_call ''amazon.com Western Digital Black SN850X 2TB NVMe SSD'',
         Search_call ''amazon.com Thermalright Phantom Spirit 120 SE'',
         Search_call ''amazon.com SeaSonic FOCUS Plus Gold 850W'',
         Search_call ''amazon.com Fractal Design Pop Air''])"
proof -
  let ?E = "stub_env user_prompt_template (Inr ''{}'')
         (Inr \<lparr>budget = 2000, use_case = ''gaming'', has_confirmed = True\<rparr>) ''$199.99''"
  let ?c = "[Extract_call ''User: hi\<newline>Assistant: hello\<newline>User: yes'',
         LLM_call ''User: hi\<newline>Assistant: hello\<newline>User: yes'']"
  let ?rows = "map (\<lambda>(t, nm). search_result.extend
                (fst (search_amazon_for_component ?E nm)) \<lparr>type = t\<rparr>)
           (parts high_end_gaming)"
  have h: "[(''hi'', ''hello'')] \<noteq> []" by simp
  have a: "analyze_user_needs ?E (history_str [(''hi'', ''hello'')] ''yes'')
     = (\<lparr>budget = 2000, use_case = ''gaming'', has_confirmed = True\<rparr>, ?c)"
    by (rule stub_analysis)
  have p: "list_all (\<lambda>p. price_parses (price p)) ?rows" by code_simp
  have v: "format_results_as_markdown high_end_gaming ?rows
     = Inr (''### Your Recommended High-End Gaming/Streaming Build\<newline>\<newline>''
             @ ''| Component | Part | Price | Image |\<newline>''
             @ ''|---|---|---|---|\<newline>''
             @ ''| **CPU** | [amazon.com AMD Ryzen 7 7800X3D](#) | $199.99 | ![amazon.com AMD Ryzen 7 7800X3D]() |\<newline>''
             @ ''| **GPU** | [amazon.com NVIDIA GeForce RTX 4070 Super](#) | $199.99 | ![amazon.com NVIDIA GeForce RTX 4070 Super]() |\<newline>''
             @ ''| **Motherboard** | [amazon.com MSI MAG B650 Tomahawk WiFi](#) | $199.99 | ![amazon.com MSI MAG B650 Tomahawk WiFi]() |\<newline>''
             @ ''| **RAM** | [amazon.com G.Skill Trident Z5 Neo 32GB DDR5 6000MHz CL30](#) | $199.99 | ![amazon.com G.Skill Trident Z5 Neo 32GB DDR5 6000MHz CL30]() |\<newline>''
             @ ''| **Storage** | [amazon.com Western Digital Black SN850X 2TB NVMe SSD](#) | $199.99 | ![amazon.com Western Digital Black SN850X 2TB NVMe SSD]() |\<newline>''
             @ ''| **CPU Cooler** | [amazon.com Thermalright Phantom Spirit 120 SE](#) | $199.99 | ![amazon.com Thermalright Phantom Spirit 120 SE]() |\<newline>''
             @ ''| **PSU** | [amazon.com SeaSonic FOCUS Plus Gold 850W](#) | $199.99 | ![amazon.com SeaSonic FOCUS Plus Gold 850W]() |\<newline>''
             @ ''| **Case** | [amazon.com Fractal Design Pop Air](#) | $199.99 | ![amazon.com Fractal Design Pop Air]() |\<newline>''
             @ ''\<newline>**Estimated Total: $1599.92**''
             @ ''\<newline>\<newline>*Prices are estimates from live search results and may vary. Links will open in a new tab.*'')"
    by code_simp
  note t = high_end_turn [of "[(''hi'', ''hello'')]" ?E "''yes''" ?c, THEN mp, OF conjI [OF h a]]
  from t obtain rows where rows: "rows = ?rows"
    and r: "get_assistant_response ?E ''yes'' [(''hi'', ''hello'')]
              = (format_results_as_markdown high_end_gaming rows,
                 ?c @
                 [Search_call ''amazon.com AMD Ryzen 7 7800X3D'',
                  Search_call ''amazon.com NVIDIA GeForce RTX 4070 Super'',
                  Search_call ''amazon.com MSI MAG B650 Tomahawk WiFi'',
                  Search_call ''amazon.com G.Skill Trident Z5 Neo 32GB DDR5 6000MHz CL30'',
                  Search_call ''amazon.com Western Digital Black SN850X 2TB NVMe SSD'',
                  Search_call ''amazon.com Thermalright Phantom Spirit 120 SE'',
                  Search_call ''amazon.com SeaSonic FOCUS Plus Gold 850W'',
                  Search_call ''amazon.com Fractal Design Pop Air''])"
    by (elim conjE exE)
  from r have r': "get_assistant_response ?E ''yes'' [(''hi'', ''hello'')]
              = (format_results_as_markdown high_end_gaming ?rows,
                 ?c @
                 [Search_call ''amazon.com AMD Ryzen 7 7800X3D'',
                  Search_call ''amazon.com NVIDIA GeForce RTX 4070 Super'',
                  Search_call ''amazon.com MSI MAG B650 Tomahawk WiFi'',
                  Search_call ''amazon.com G.Skill Trident Z5 Neo 32GB DDR5 6000MHz CL30'',
                  Search_call ''amazon.com Western Digital Black SN850X 2TB NVMe SSD'',
                  Search_call ''amazon.com Thermalright Phantom Spirit 120 SE'',
                  Search_call ''amazon.com SeaSonic FOCUS Plus Gold 850W'',
                  Search_call ''amazon.com Fractal Design Pop Air''])"
    by (simp only: rows)
  show ?thesis
  proof (intro conjI)
    show "analyze_user_needs ?E (history_str [(''hi'', ''hello'')] ''yes'')
     = (\<lparr>budget = 2000, use_case = ''gaming'', has_confirmed = True\<rparr>, ?c)"
      by (rule a)
  next
    show "list_all (\<lambda>p. price_parses (price p)) ?rows" by (rule p)
  next
    show "get_assistant_response ?E ''yes'' [(''hi'', ''hello'')]
     = (Inr (''### Your Recommended High-End Gaming/Streaming Build\<newline>\<newline>''
             @ ''| Component | Part | Price | Image |\<newline>''
             @ ''|---|---|---|---|\<newline>''
             @ ''| **CPU** | [amazon.com AMD Ryzen 7 7800X3D](#) | $199.99 | ![amazon.com AMD Ryzen 7 7800X3D]() |\<newline>''
             @ ''| **GPU** | [amazon.com NVIDIA GeForce RTX 4070 Super](#) | $199.99 | ![amazon.com NVIDIA GeForce RTX 4070 Super]() |\<newline>''
             @ ''| **Motherboard** | [amazon.com MSI MAG B650 Tomahawk WiFi](#) | $199.99 | ![amazon.com MSI MAG B650 Tomahawk WiFi]() |\<newline>''
             @ ''| **RAM** | [amazon.com G.Skill Trident Z5 Neo 32GB DDR5 6000MHz CL30](#) | $199.99 | ![amazon.com G.Skill Trident Z5 Neo 32GB DDR5 6000MHz CL30]() |\<newline>''
             @ ''| **Storage** | [amazon.com Western Digital Black SN850X 2TB NVMe SSD](#) | $199.99 | ![amazon.com Western Digital Black SN850X 2TB NVMe SSD]() |\<newline>''
             @ ''| **CPU Cooler** | [amazon.com Thermalright Phantom Spirit 120 SE](#) | $199.99 | ![amazon.com Thermalright Phantom Spirit 120 SE]() |\<newline>''
             @ ''| **PSU** | [amazon.com SeaSonic FOCUS Plus Gold 850W](#) | $199.99 | ![amazon.com SeaSonic FOCUS Plus Gold 850W]() |\<newline>''
             @ ''| **Case** | [amazon.com Fractal Design Pop Air](#) | $199.99 | ![amazon.com Fractal Design Pop Air]() |\<newline>''
             @ ''\<newline>**Estimated Total: $1599.92**''
             @ ''\<newline>\<newline>*Prices are estimates from live search results and may vary. Links will open in a new tab.*''),
        [Extract_call ''User: hi\<newline>Assistant: hello\<newline>User: yes'',
         LLM_call ''User: hi\<newline>Assistant: hello\<newline>User: yes'',
         Search_call ''amazon.com AMD Ryzen 7 7800X3D'',
         Search_call ''amazon.com NVIDIA GeForce RTX 4070 Super'',
         Search_call ''amazon.com MSI MAG B650 Tomahawk WiFi'',
         Search_call ''amazon.com G.Skill Trident Z5 Neo 32GB DDR5 6000MHz CL30'',
         Search_call ''amazon.com Western Digital Black SN850X 2TB NVMe SSD'',
         Search_call ''amazon.com Thermalright Phantom Spirit 120 SE'',
         Search_call ''amazon.com SeaSonic FOCUS Plus Gold 850W'',
         Search_call ''amazon.com Fractal Design Pop Air''])"
      by (simp only: r' v append.simps)
  qed
qed

text \<open>
  Claim C10.  Every tier of the catalog has parts, and every lookup returns a listing:
  the \<open>Not Found\<close> placeholder, or one built from the first product of the service.  So
  the failure message is never the response of a turn, and on a confirmed turn the list
  of listings is non-empty, as long as the tier's parts, and the response is what the
  Report Assembler makes of it: a report whenever every looked-up price can be totalled,
  which the two prices that the lookup itself supplies (\<open>Not Found\<close>, \<open>N/A\<close>) can.  What
  the assembler does with a price that cannot be totalled is the matter of claim C2 and is
  neither promised nor denied here.
\<close>

theorem failure_branch_unreachable:
  "parts budget_office \<noteq> [] \<and> parts mid_range_gaming \<noteq> []
   \<and> parts high_end_gaming \<noteq> [] \<and> parts professional_workstation \<noteq> []
   \<and> (fst (search_amazon_for_component env nm)
         = \<lparr>name = nm, price = ''Not Found'', link = ''#'', image_field = []\<rparr>
       \<or> (\<exists>product rest.
             shopping_results env (''amazon.com '' @ nm) = Some (product # rest)
             \<and> fst (search_amazon_for_component env nm)
                = \<lparr>name = get_default product ''title'' nm,
                   price = get_default product ''price'' ''N/A'',
                   link = get_default product ''link'' ''#'',
                   image_field = get_default product ''thumbnail'' []\<rparr>))
   \<and> price_parses ''Not Found'' \<and> price_parses ''N/A''
   \<and> fst (get_assistant_response env user_message chat_history) \<noteq> Inr failure_message
   \<and> (chat_history \<noteq> []
        \<and> analyze_user_needs env (history_str chat_history user_message) = (n, calls)
        \<and> budget n \<noteq> 0 \<and> use_case n \<noteq> ''unknown'' \<and> has_confirmed n \<longrightarrow>
        (\<exists>b ps calls'.
           select_build_tier (budget n) (use_case n) = Inr b
           \<and> lookup_loop env (parts b) [] calls = (ps, calls')
           \<and> ps \<noteq> [] \<and> length ps = length (parts b)
           \<and> get_assistant_response env user_message chat_history
               = (format_results_as_markdown b ps, calls')
           \<and> format_results_as_markdown b ps \<noteq> Inr failure_message
           \<and> (list_all (\<lambda>p. price_parses (price p)) ps \<longrightarrow>
                 (\<exists>report. format_results_as_markdown b ps = Inr report))))"
proof -
  have confirmed: "\<exists>b ps calls'.
           select_build_tier (budget n) (use_case n) = Inr b
           \<and> lookup_loop env (parts b) [] calls = (ps, calls')
           \<and> ps \<noteq> [] \<and> length ps = length (parts b)
           \<and> get_assistant_response env user_message chat_history
               = (format_results_as_markdown b ps, calls')
           \<and> format_results_as_markdown b ps \<noteq> Inr failure_message
           \<and> (list_all (\<lambda>p. price_parses (price p)) ps \<longrightarrow>
                 (\<exists>report. format_results_as_markdown b ps = Inr report))"
    if h: "chat_history \<noteq> []"
      and a: "analyze_user_needs env (history_str chat_history user_message) = (n, calls)"
      and c: "budget n \<noteq> 0" "use_case n \<noteq> ''unknown''" "has_confirmed n"
  proof -
    obtain b where b: "select_build_tier (budget n) (use_case n) = Inr b"
      using select_build_tier_returns by blast
    obtain ps calls' where l: "lookup_loop env (parts b) [] calls = (ps, calls')"
      by (cases "lookup_loop env (parts b) [] calls")
    have ne: "ps \<noteq> []" using l selected_parts_nonempty [OF b] by (rule lookup_loop_nonempty)
    from l have len: "length ps = length (parts b)" by (auto simp: lookup_loop_eq)
    from l build_path [OF h a c b]
    have r: "get_assistant_response env user_message chat_history
               = (format_results_as_markdown b ps, calls')"
      by (simp add: lookup_loop_eq)
    have ok: "list_all (\<lambda>p. price_parses (price p)) ps \<longrightarrow>
                 (\<exists>report. format_results_as_markdown b ps = Inr report)"
      by (simp only: report_returned_iff) simp
    from b l ne len r ok report_is_not_failure_message [of b ps] show ?thesis by blast
  qed
  have pp: "price_parses ''Not Found'' \<and> price_parses ''N/A''"
    by (simp add: price_parses_def strip_non_numeric_def is_digit_def)
  show ?thesis
  proof (intro conjI)
    show "chat_history \<noteq> []
        \<and> analyze_user_needs env (history_str chat_history user_message) = (n, calls)
        \<and> budget n \<noteq> 0 \<and> use_case n \<noteq> ''unknown'' \<and> has_confirmed n \<longrightarrow>
        (\<exists>b ps calls'.
           select_build_tier (budget n) (use_case n) = Inr b
           \<and> lookup_loop env (parts b) [] calls = (ps, calls')
           \<and> ps \<noteq> [] \<and> length ps = length (parts b)
           \<and> get_assistant_response env user_message chat_history
               = (format_results_as_markdown b ps, calls')
           \<and> format_results_as_markdown b ps \<noteq> Inr failure_message
           \<and> (list_all (\<lambda>p. price_parses (price p)) ps \<longrightarrow>
                 (\<exists>report. format_results_as_markdown b ps = Inr report)))"
      using confirmed by blast
  qed (use parts_nonempty search_returns_listing [of env nm] pp
        never_failure_message [of env user_message chat_history] in simp_all)
qed

theorem failure_branch_unreachable_witness:
  "analyze_user_needs
      ((stub_env user_prompt_template (Inr ''{}'')
          (Inr \<lparr>budget = 600, use_case = ''office'', has_confirmed = True\<rparr>) ''$10.00'')
       \<lparr>shopping_results := (\<lambda>q. None)\<rparr>)
      (history_str [(''hi'', ''hello'')] ''yes'')
     = (\<lparr>budget = 600, use_case = ''office'', has_confirmed = True\<rparr>,
        [Extract_call ''User: hi\<newline>Assistant: hello\<newline>User: yes'',
         LLM_call ''User: hi\<newline>Assistant: hello\<newline>User: yes''])
   \<and> fst (get_assistant_response
        ((stub_env user_prompt_template (Inr ''{}'')
            (Inr \<lparr>budget = 600, use_case = ''office'', has_confirmed = True\<rparr>) ''$10.00'')
         \<lparr>shopping_results := (\<lambda>q. None)\<rparr>)
        ''yes'' [(''hi'', ''hello'')]) \<noteq> Inr failure_message
   \<and> get_assistant_response
        ((stub_env user_prompt_template (Inr ''{}'')
            (Inr \<lparr>budget = 600, use_case = ''office'', has_confirmed = True\<rparr>) ''$10.00'')
         \<lparr>shopping_results := (\<lambda>q. None)\<rparr>)
        ''yes'' [(''hi'', ''hello'')]
     = (Inr (''### Your Recommended Budget Office/Web Browse Build\<newline>\<newline>''
             @ ''| Component | Part | Price | Image |\<newline>''
             @ ''|---|---|---|---|\<newline>''
             @ ''| **CPU** | [AMD Ryzen 5 5600G](#) | Not Found | ![AMD Ryzen 5 5600G]() |\<newline>''
             @ ''| **Motherboard** | [ASRock B450M PRO4](#) | Not Found | ![ASRock B450M PRO4]() |\<newline>''
             @ ''| **RAM** | [Corsair Vengeance LPX 16GB DDR4 3200MHz](#) | Not Found | ![Corsair Vengeance LPX 16GB DDR4 3200MHz]() |\<newline>''
             @ ''| **Storage** | [Crucial P3 1TB NVMe SSD](#) | Not Found | ![Crucial P3 1TB NVMe SSD]() |\<newline>''
             @ ''| **PSU** | [Thermaltake Smart 500W 80+ White](#) | Not Found | ![Thermaltake Smart 500W 80+ White]() |\<newline>''
             @ ''| **Case** | [Cooler Master MasterBox Q300L](#) | Not Found | ![Cooler Master MasterBox Q300L]() |\<newline>''
             @ ''\<newline>**Estimated Total: $0.00**''
             @ ''\<newline>\<newline>*Prices are estimates from live search results and may vary. Links will open in a new tab.*''),
        [Extract_call ''User: hi\<newline>Assistant: hello\<newline>User: yes'',
         LLM_call ''User: hi\<newline>Assistant: hello\<newline>User: yes'',
         Search_call ''amazon.com AMD Ryzen 5 5600G'',
         Search_call ''amazon.com ASRock B450M PRO4'',
         Search_call ''amazon.com Corsair Vengeance LPX 16GB DDR4 3200MHz'',
         Search_call ''amazon.com Crucial P3 1TB NVMe SSD'',
         Search_call ''amazon.com Thermaltake Smart 500W 80+ White'',
         Search_call ''amazon.com Cooler Master MasterBox Q300L''])"
proof -
  let ?E = "(stub_env user_prompt_template (Inr ''{}'')
          (Inr \<lparr>budget = 600, use_case = ''office'', has_confirmed = True\<rparr>) ''$10.00'')
       \<lparr>shopping_results := (\<lambda>q. None)\<rparr>"
  let ?n = "\<lparr>budget = 600, use_case = ''office'', has_confirmed = True\<rparr>"
  let ?c = "[Extract_call ''User: hi\<newline>Assistant: hello\<newline>User: yes'',
         LLM_call ''User: hi\<newline>Assistant: hello\<newline>User: yes'']"
  let ?report = "''### Your Recommended Budget Office/Web Browse Build\<newline>\<newline>''
             @ ''| Component | Part | Price | Image |\<newline>''
             @ ''|---|---|---|---|\<newline>''
             @ ''| **CPU** | [AMD Ryzen 5 5600G](#) | Not Found | ![AMD Ryzen 5 5600G]() |\<newline>''
             @ ''| **Motherboard** | [ASRock B450M PRO4](#) | Not Found | ![ASRock B450M PRO4]() |\<newline>''
             @ ''| **RAM** | [Corsair Vengeance LPX 16GB DDR4 3200MHz](#) | Not Found | ![Corsair Vengeance LPX 16GB DDR4 3200MHz]() |\<newline>''
             @ ''| **Storage** | [Crucial P3 1TB NVMe SSD](#) | Not Found | ![Crucial P3 1TB NVMe SSD]() |\<newline>''
             @ ''| **PSU** | [Thermaltake Smart 500W 80+ White](#) | Not Found | ![Thermaltake Smart 500W 80+ White]() |\<newline>''
             @ ''| **Case** | [Cooler Master MasterBox Q300L](#) | Not Found | ![Cooler Master MasterBox Q300L]() |\<newline>''
             @ ''\<newline>**Estimated Total: $0.00**''
             @ ''\<newline>\<newline>*Prices are estimates from live search results and may vary. Links will open in a new tab.*''"
  let ?trace = "[Extract_call ''User: hi\<newline>Assistant: hello\<newline>User: yes'',
         LLM_call ''User: hi\<newline>Assistant: hello\<newline>User: yes'',
         Search_call ''amazon.com AMD Ryzen 5 5600G'',
         Search_call ''amazon.com ASRock B450M PRO4'',
         Search_call ''amazon.com Corsair Vengeance LPX 16GB DDR4 3200MHz'',
         Search_call ''amazon.com Crucial P3 1TB NVMe SSD'',
         Search_call ''amazon.com Thermaltake Smart 500W 80+ White'',
         Search_call ''amazon.com Cooler Master MasterBox Q300L'']"
  have h: "[(''hi'', ''hello'')] \<noteq> []" by simp
  have a: "analyze_user_needs ?E (history_str [(''hi'', ''hello'')] ''yes'') = (?n, ?c)"
    by (simp add: analyze_user_needs_def chain_invoke_def prompt_invoke_def stub_env_def
        user_prompt_template_def history_str_def)
  have c: "budget ?n \<noteq> 0 \<and> use_case ?n \<noteq> ''unknown'' \<and> has_confirmed ?n" by simp
  have sel: "select_build_tier (budget ?n) (use_case ?n) = Inr budget_office"
    by (simp add: select_build_tier_cases)
  note t = failure_branch_unreachable
    [of ?E "''AMD Ryzen 5 5600G''" "''yes''" "[(''hi'', ''hello'')]" ?n ?c]
  note never = t [THEN conjunct2, THEN conjunct2, THEN conjunct2, THEN conjunct2,
      THEN conjunct2, THEN conjunct2, THEN conjunct2, THEN conjunct1]
  note turn = t [THEN conjunct2, THEN conjunct2, THEN conjunct2, THEN conjunct2,
      THEN conjunct2, THEN conjunct2, THEN conjunct2, THEN conjunct2, THEN mp,
      OF conjI [OF h conjI [OF a c]]]
  from turn obtain b ps calls'
    where b: "select_build_tier (budget ?n) (use_case ?n) = Inr b"
      and l: "lookup_loop ?E (parts b) [] ?c = (ps, calls')"
      and r: "get_assistant_response ?E ''yes'' [(''hi'', ''hello'')]
               = (format_results_as_markdown b ps, calls')"
    by (elim exE conjE) (rule that, assumption+)
  from b sel have bo: "b = budget_office" by simp
  have l0: "lookup_loop ?E (parts budget_office) [] ?c
      = (map (\<lambda>(t, nm). \<lparr>name = nm, price = ''Not Found'', link = ''#'', image_field = [],
                           type = t\<rparr>) (parts budget_office), ?trace)"
    by code_simp
  have v: "format_results_as_markdown budget_office
      (map (\<lambda>(t, nm). \<lparr>name = nm, price = ''Not Found'', link = ''#'', image_field = [],
                           type = t\<rparr>) (parts budget_office)) = Inr ?report"
    by code_simp
  from l l0 have "ps = map (\<lambda>(t, nm). \<lparr>name = nm, price = ''Not Found'', link = ''#'',
                           image_field = [], type = t\<rparr>) (parts budget_office)"
    and "calls' = ?trace"
    by (simp_all only: bo prod.inject)
  with r v have r': "get_assistant_response ?E ''yes'' [(''hi'', ''hello'')] = (Inr ?report, ?trace)"
    by (simp only: bo)
  from a never r' show ?thesis by (intro conjI)
qed

end
